theory Spec2Isabelle
  imports Main
begin

section \<open>Messages (types/messages.ts)\<close>

text \<open>
  A value thrown in JavaScript: an \<open>Error\<close> object with its message, or any other value.
  \<open>error_message x d\<close> is the source's \<^verbatim>\<open>x instanceof Error ? x.message : d\<close>.
\<close>

datatype js_exn = Error string | NonError

definition error_message :: "js_exn \<Rightarrow> string \<Rightarrow> string" where
  "error_message x d = (case x of Error m \<Rightarrow> m | NonError \<Rightarrow> d)"

text \<open>
  The \<open>params\<close> object of a browser request, with the fields the handlers read after
  their type assertions. \<open>action_param\<close>, \<open>value_param\<close> and \<open>all_param\<close> are the fields
  \<open>action\<close>, \<open>value\<close> and \<open>all\<close>; \<open>None\<close> is an absent field.
\<close>

record request_params =
  selector :: "string option"
  includeStyles :: "bool option"
  script :: "string option"
  action_param :: "string option"
  value_param :: "string option"
  attributeName :: "string option"
  all_param :: "bool option"
  level :: "string option"
  clear :: "bool option"

record request =
  requestId :: string
  action :: string
  params :: "request_params option"

text \<open>
  ConsoleLogEntry. The level is whatever the listener stored: a string, or, when the
  lookup in the listener's level table hit a property inherited from \<open>Object.prototype\<close>,
  that inherited value, which is not a string.
\<close>

datatype js_level = LevelName string | InheritedValue

record entry =
  entry_level :: js_level
  entry_text :: string
  timestamp :: nat
  entry_url :: "string option"
  lineNumber :: "nat option"
  stackTrace :: "string option"

text \<open>The \<open>data\<close> payloads the seven handlers build.\<close>

datatype resp_data =
    DomData string string string string
  | SelectionData string string string
  | UrlData "string option" "string option" nat
  | ScreenshotData string string
  | ScriptData bool
  | ModifyData nat string
  | LogsData "entry list" nat "string option" bool

record response =
  resp_requestId :: string
  success :: bool
  data :: "resp_data option"
  error :: "string option"

datatype conn_status = Connected | Disconnected | Connecting | StatusError

datatype ws_message =
    TerminalInput string
  | TerminalOutput string
  | TerminalResize nat nat
  | BrowserRequest request
  | BrowserResponse response
  | ConnectionStatus conn_status "string option"

section \<open>Background service worker: state\<close>

datatype ready_state = CONNECTING | OPEN | CLOSING | CLOSED

datatype chrome_call =
    TabsQuery
  | ScriptingExecuteScript nat
  | CaptureVisibleTab
  | DebuggerAttach nat
  | DebuggerSendCommand nat string
  | DebuggerDetach nat

datatype mutation =
    SetInnerHTML string
  | SetOuterHTML string
  | SetTextContent string
  | SetAttribute string string
  | RemoveAttribute string
  | ClassListAdd string
  | ClassListRemove string
  | RemoveElement
  | InsertAdjacentHTML string string

text \<open>
  The module-level variables of the service worker, and the effects it has on the
  outside, kept as traces:
  \<^item> \<open>socket\<close> is the variable \<open>socket\<close>: \<open>None\<close> is \<open>null\<close>, \<open>Some i\<close> refers to the
    \<open>i\<close>-th WebSocket object created; \<open>ws_objects\<close> holds the \<open>readyState\<close> of every
    WebSocket object created so far;
  \<^item> \<open>reconnect_timers\<close> counts the pending \<^verbatim>\<open>setTimeout(connectToBackend, RECONNECT_DELAY)\<close>;
  \<^item> \<open>status_timers\<close> are the pending delayed status broadcasts of the ping handler;
  \<^item> \<open>broadcasts\<close> are the messages handed to \<open>chrome.runtime.sendMessage\<close>;
  \<^item> \<open>backend_sends\<close> are the calls of \<open>sendToBackend\<close>, each with its return value
    (\<open>True\<close>: written to the socket, \<open>False\<close>: dropped because the socket is not open);
  \<^item> \<open>calls\<close> are the Chrome API calls made, \<open>dom_writes\<close> the DOM mutations performed
    in the page, each with the element it was applied to.
\<close>

record bg_state =
  socket :: "nat option"
  ws_objects :: "ready_state list"
  reconnectAttempts :: nat
  reconnect_timers :: nat
  status_timers :: "conn_status list"
  broadcasts :: "ws_message list"
  backend_sends :: "(ws_message \<times> bool) list"
  consoleLogs :: "nat \<rightharpoonup> entry list"
  attachedTabs :: "nat set"
  calls :: "chrome_call list"
  dom_writes :: "(nat \<times> mutation) list"

definition MAX_RECONNECT_ATTEMPTS :: nat where
  "MAX_RECONNECT_ATTEMPTS = 10"

definition MAX_LOGS_PER_TAB :: nat where
  "MAX_LOGS_PER_TAB = 500"

section \<open>Connection manager\<close>

text \<open>\<^verbatim>\<open>socket?.readyState === WebSocket.OPEN\<close>\<close>

definition socket_open :: "bg_state \<Rightarrow> bool" where
  "socket_open s =
     (case socket s of
        None \<Rightarrow> False
      | Some i \<Rightarrow> i < length (ws_objects s) \<and> ws_objects s ! i = OPEN)"

definition broadcastToExtension :: "ws_message \<Rightarrow> bg_state \<Rightarrow> bg_state" where
  "broadcastToExtension m s = s\<lparr>broadcasts := broadcasts s @ [m]\<rparr>"

definition scheduleReconnect :: "bg_state \<Rightarrow> bg_state" where
  "scheduleReconnect s =
     (if reconnectAttempts s < MAX_RECONNECT_ATTEMPTS
      then s\<lparr>reconnectAttempts := reconnectAttempts s + 1,
             reconnect_timers := reconnect_timers s + 1\<rparr>
      else broadcastToExtension
             (ConnectionStatus StatusError
                (Some ''Failed to connect after multiple attempts. Is the backend running?'')) s)"

text \<open>
  \<open>connectToBackend\<close>. The flag says whether \<^verbatim>\<open>new WebSocket(BACKEND_URL)\<close> throws; when it
  does not, a new WebSocket object in state CONNECTING is created and assigned to \<open>socket\<close>.
\<close>

definition connectToBackend :: "bool \<Rightarrow> bg_state \<Rightarrow> bg_state" where
  "connectToBackend ctor_throws s =
     (if socket_open s then s
      else
        let s1 = broadcastToExtension (ConnectionStatus Connecting None) s
        in if ctor_throws then scheduleReconnect s1
           else s1\<lparr>socket := Some (length (ws_objects s1)),
                   ws_objects := ws_objects s1 @ [CONNECTING]\<rparr>)"

definition socket_onopen :: "bg_state \<Rightarrow> bg_state" where
  "socket_onopen s =
     broadcastToExtension (ConnectionStatus Connected None) (s\<lparr>reconnectAttempts := 0\<rparr>)"

definition socket_onclose :: "bg_state \<Rightarrow> bg_state" where
  "socket_onclose s =
     scheduleReconnect
       (broadcastToExtension (ConnectionStatus Disconnected None) (s\<lparr>socket := None\<rparr>))"

definition socket_onerror :: "bg_state \<Rightarrow> bg_state" where
  "socket_onerror s =
     broadcastToExtension
       (ConnectionStatus StatusError (Some ''Failed to connect to backend server'')) s"

definition sendToBackend :: "ws_message \<Rightarrow> bg_state \<Rightarrow> bool \<times> bg_state" where
  "sendToBackend m s =
     (if socket_open s
      then (True, s\<lparr>backend_sends := backend_sends s @ [(m, True)]\<rparr>)
      else (False, s\<lparr>backend_sends := backend_sends s @ [(m, False)]\<rparr>))"

section \<open>The browser around the service worker\<close>

record tab =
  tab_id :: "nat option"
  tab_url :: "string option"
  tab_title :: "string option"

text \<open>
  The page of the active tab, as far as the injected functions look at it.
  \<open>query sel\<close> is \<open>document.querySelectorAll(sel)\<close> in document order (\<open>Inl\<close>: the selector
  makes it throw), and \<open>document.querySelector\<close> is its first element; an element is a
  node number. \<open>selection_text\<close> is \<^verbatim>\<open>window.getSelection()?.toString()\<close>.
  \<open>dom_throws el m\<close> says whether applying mutation \<open>m\<close> to element \<open>el\<close> throws, and
  \<open>script_throws src\<close> whether running the script text \<open>src\<close> in the page throws.
\<close>

record page =
  query :: "string \<Rightarrow> js_exn + nat list"
  outerHTML :: "nat \<Rightarrow> string"
  href :: string
  doc_title :: string
  selection_text :: "string option"
  dom_throws :: "nat \<Rightarrow> mutation \<Rightarrow> js_exn option"
  script_throws :: "string \<Rightarrow> js_exn option"

text \<open>
  What \<open>chrome.scripting.executeScript\<close> does with the function it is given: the promise
  rejects, or resolves without a result for the frame, or the function runs in the page.
\<close>

datatype inject_outcome = InjectRejects js_exn | InjectNoResult | InjectRuns

text \<open>
  The answers of the Chrome APIs during one handler run. \<open>uncaught_rejects\<close> says what
  Chrome does when an exception escapes the injected function: reject the promise
  (\<open>True\<close>) or resolve with an undefined result (\<open>False\<close>).
\<close>

record env =
  active_tabs :: "tab list"
  inject :: inject_outcome
  uncaught_rejects :: bool
  page :: page
  capture :: "js_exn + string"
  attach_result :: "js_exn option"
  sendCommand_result :: "string \<Rightarrow> js_exn option"

definition fail_response :: "request \<Rightarrow> string \<Rightarrow> response" where
  "fail_response req msg =
     \<lparr>resp_requestId = requestId req, success = False, data = None, error = Some msg\<rparr>"

definition ok_response :: "request \<Rightarrow> resp_data option \<Rightarrow> response" where
  "ok_response req d =
     \<lparr>resp_requestId = requestId req, success = True, data = d, error = None\<rparr>"

text \<open>\<open>x || ''\<close> and \<open>!x\<close> on an optional string.\<close>

definition or_empty :: "string option \<Rightarrow> string" where
  "or_empty v = (case v of None \<Rightarrow> [] | Some x \<Rightarrow> x)"

definition falsy :: "string option \<Rightarrow> bool" where
  "falsy v = (or_empty v = [])"

definition startsWith :: "string \<Rightarrow> string \<Rightarrow> bool" where
  "startsWith u p = (take (length p) u = p)"

definition restricted_url :: "string \<Rightarrow> bool" where
  "restricted_url u =
     (startsWith u ''chrome://'' \<or> startsWith u ''chrome-extension://'' \<or>
      startsWith u ''edge://'' \<or> startsWith u ''about:'' \<or> startsWith u ''devtools://'')"

section \<open>Request router: resolving the active tab\<close>

definition getActiveTab :: "env \<Rightarrow> bg_state \<Rightarrow> (js_exn + tab) \<times> bg_state" where
  "getActiveTab e s =
     (let s1 = s\<lparr>calls := calls s @ [TabsQuery]\<rparr>
      in case active_tabs e of
           [] \<Rightarrow> (Inl (Error ''No active tab found''), s1)
         | t # _ \<Rightarrow>
             (if tab_id t = None \<or> tab_id t = Some 0
              then (Inl (Error ''No active tab found''), s1)
              else
                let u = or_empty (tab_url t)
                in if restricted_url u
                   then (Inl (Error (''Cannot access restricted page: '' @
                                     takeWhile (\<lambda>c. c \<noteq> CHR ''/'') u @ ''//...'')), s1)
                   else (Inr t, s1)))"

text \<open>\<open>tab.id!\<close> of a tab that \<open>getActiveTab\<close> returned.\<close>

definition tab_id_of :: "tab \<Rightarrow> nat" where
  "tab_id_of t = (case tab_id t of Some i \<Rightarrow> i | None \<Rightarrow> 0)"

text \<open>
  \<open>chrome.scripting.executeScript\<close> on a tab with an injected function \<open>f\<close>; \<open>f\<close> returns
  its result (or the exception that escapes it) and the DOM mutations it performed.
  The result is \<open>results[0]?.result\<close>, \<open>None\<close> when undefined.
\<close>

definition executeScript ::
  "env \<Rightarrow> nat \<Rightarrow> (page \<Rightarrow> (js_exn + 'r) \<times> (nat \<times> mutation) list) \<Rightarrow> bg_state
     \<Rightarrow> (js_exn + 'r option) \<times> bg_state" where
  "executeScript e tabId f s =
     (let s1 = s\<lparr>calls := calls s @ [ScriptingExecuteScript tabId]\<rparr>
      in case inject e of
           InjectRejects x \<Rightarrow> (Inl x, s1)
         | InjectNoResult \<Rightarrow> (Inr None, s1)
         | InjectRuns \<Rightarrow>
             (case f (page e) of
                (r, ws) \<Rightarrow>
                  let s2 = s1\<lparr>dom_writes := dom_writes s1 @ ws\<rparr>
                  in (case r of
                        Inr v \<Rightarrow> (Inr (Some v), s2)
                      | Inl x \<Rightarrow> if uncaught_rejects e then (Inl x, s2) else (Inr None, s2))))"

section \<open>Request router: the handlers\<close>

datatype dom_result = DomNotFound string | DomFound string string string string

definition getDom_func ::
  "request_params option \<Rightarrow> page \<Rightarrow> (js_exn + dom_result) \<times> (nat \<times> mutation) list" where
  "getDom_func options p =
     (let sel0 = (case options of None \<Rightarrow> None | Some ps \<Rightarrow> selector ps);
          sel = (if falsy sel0 then ''body'' else or_empty sel0)
      in case query p sel of
           Inl x \<Rightarrow> (Inl x, [])
         | Inr [] \<Rightarrow> (Inr (DomNotFound (''Element not found: '' @ sel)), [])
         | Inr (el # _) \<Rightarrow> (Inr (DomFound (outerHTML p el) (href p) (doc_title p) sel), []))"

definition getActiveTabDom :: "env \<Rightarrow> request \<Rightarrow> bg_state \<Rightarrow> (js_exn + response) \<times> bg_state" where
  "getActiveTabDom e req s =
     (case getActiveTab e s of
        (Inl x, s1) \<Rightarrow> (Inl x, s1)
      | (Inr t, s1) \<Rightarrow>
          (case executeScript e (tab_id_of t) (getDom_func (params req)) s1 of
             (Inl x, s2) \<Rightarrow> (Inl x, s2)
           | (Inr None, s2) \<Rightarrow> (Inr (ok_response req None), s2)
           | (Inr (Some (DomNotFound msg)), s2) \<Rightarrow> (Inr (fail_response req msg), s2)
           | (Inr (Some (DomFound h u ti sel)), s2) \<Rightarrow>
               (Inr (ok_response req (Some (DomData h u ti sel))), s2)))"

definition getSelection_func :: "page \<Rightarrow> (js_exn + resp_data) \<times> (nat \<times> mutation) list" where
  "getSelection_func p =
     (Inr (SelectionData (or_empty (selection_text p)) (href p) (doc_title p)), [])"

definition getActiveTabSelection :: "env \<Rightarrow> request \<Rightarrow> bg_state \<Rightarrow> (js_exn + response) \<times> bg_state" where
  "getActiveTabSelection e req s =
     (case getActiveTab e s of
        (Inl x, s1) \<Rightarrow> (Inl x, s1)
      | (Inr t, s1) \<Rightarrow>
          (case executeScript e (tab_id_of t) getSelection_func s1 of
             (Inl x, s2) \<Rightarrow> (Inl x, s2)
           | (Inr d, s2) \<Rightarrow> (Inr (ok_response req d), s2)))"

definition getActiveTabUrl :: "env \<Rightarrow> request \<Rightarrow> bg_state \<Rightarrow> (js_exn + response) \<times> bg_state" where
  "getActiveTabUrl e req s =
     (case getActiveTab e s of
        (Inl x, s1) \<Rightarrow> (Inl x, s1)
      | (Inr t, s1) \<Rightarrow>
          (Inr (ok_response req (Some (UrlData (tab_url t) (tab_title t) (tab_id_of t)))), s1))"

definition captureActiveTabScreenshot ::
  "env \<Rightarrow> request \<Rightarrow> bg_state \<Rightarrow> (js_exn + response) \<times> bg_state" where
  "captureActiveTabScreenshot e req s =
     (let s1 = s\<lparr>calls := calls s @ [CaptureVisibleTab]\<rparr>
      in case capture e of
           Inr dataUrl \<Rightarrow> (Inr (ok_response req (Some (ScreenshotData dataUrl ''png''))), s1)
         | Inl x \<Rightarrow>
             (Inr (fail_response req (error_message x ''Failed to capture screenshot'')), s1))"

text \<open>
  \<open>executeScriptInTab\<close>. The user's script is wrapped in a function with a try/catch
  whose value is the script's result or an \<open>__error\<close> object; the wrapped text becomes the
  content of a script element, so the value of the wrapping function goes nowhere, and
  the injected function returns \<^verbatim>\<open>{ success: true }\<close>.
\<close>

datatype iife_value = IifeReturns | IifeError string

definition wrappedScript_run :: "page \<Rightarrow> string \<Rightarrow> iife_value" where
  "wrappedScript_run p src =
     (case script_throws p src of
        None \<Rightarrow> IifeReturns
      | Some x \<Rightarrow>
          IifeError (if error_message x [] = [] then ''Script execution failed''
                     else error_message x []))"

definition executeScript_func ::
  "string \<Rightarrow> page \<Rightarrow> (js_exn + resp_data) \<times> (nat \<times> mutation) list" where
  "executeScript_func src p =
     (let discarded = wrappedScript_run p src
      in (Inr (ScriptData True), []))"

definition executeScriptInTab :: "env \<Rightarrow> request \<Rightarrow> bg_state \<Rightarrow> (js_exn + response) \<times> bg_state" where
  "executeScriptInTab e req s =
     (case getActiveTab e s of
        (Inl x, s1) \<Rightarrow> (Inl x, s1)
      | (Inr t, s1) \<Rightarrow>
          (let src = (case params req of None \<Rightarrow> None | Some ps \<Rightarrow> script ps)
           in if falsy src
              then (Inr (fail_response req ''No script provided''), s1)
              else
                (case executeScript e (tab_id_of t) (executeScript_func (or_empty src)) s1 of
                   (Inr d, s2) \<Rightarrow> (Inr (ok_response req d), s2)
                 | (Inl x, s2) \<Rightarrow>
                     (Inr (fail_response req (error_message x ''Failed to execute script'')), s2))))"

text \<open>
  \<open>modifyDomInTab\<close>: the injected function. \<open>mutation_for\<close> is the switch on the action
  for one element: the message of an early \<^verbatim>\<open>return { success: false, ... }\<close>, or the
  mutation to apply.
\<close>

definition mutation_for :: "string \<Rightarrow> string option \<Rightarrow> string option \<Rightarrow> string + mutation" where
  "mutation_for act v a =
     (if act = ''setHTML'' then Inr (SetInnerHTML (or_empty v))
      else if act = ''setOuterHTML'' then Inr (SetOuterHTML (or_empty v))
      else if act = ''setText'' then Inr (SetTextContent (or_empty v))
      else if act = ''setAttribute'' then
        (if falsy a then Inl ''attributeName required for setAttribute action''
         else Inr (SetAttribute (or_empty a) (or_empty v)))
      else if act = ''removeAttribute'' then
        (if falsy a then Inl ''attributeName required for removeAttribute action''
         else Inr (RemoveAttribute (or_empty a)))
      else if act = ''addClass'' then
        (if falsy v then Inl ''value (class name) required for addClass action''
         else Inr (ClassListAdd (or_empty v)))
      else if act = ''removeClass'' then
        (if falsy v then Inl ''value (class name) required for removeClass action''
         else Inr (ClassListRemove (or_empty v)))
      else if act = ''remove'' then Inr RemoveElement
      else if act = ''insertBefore'' then
        (if falsy v then Inl ''value (HTML content) required for insertBefore action''
         else Inr (InsertAdjacentHTML ''beforebegin'' (or_empty v)))
      else if act = ''insertAfter'' then
        (if falsy v then Inl ''value (HTML content) required for insertAfter action''
         else Inr (InsertAdjacentHTML ''afterend'' (or_empty v)))
      else Inl (''Unknown action: '' @ act))"

datatype loop_outcome = LoopDone nat | LoopReturn string | LoopThrow js_exn

text \<open>The \<open>for (const element of elements)\<close> loop, with \<open>modifiedCount\<close> and the writes so far.\<close>

fun modify_loop ::
  "page \<Rightarrow> string \<Rightarrow> string option \<Rightarrow> string option \<Rightarrow> nat list \<Rightarrow> nat
     \<Rightarrow> (nat \<times> mutation) list \<Rightarrow> loop_outcome \<times> (nat \<times> mutation) list" where
  "modify_loop p act v a [] modifiedCount ws = (LoopDone modifiedCount, ws)"
| "modify_loop p act v a (el # els) modifiedCount ws =
     (case mutation_for act v a of
        Inl msg \<Rightarrow> (LoopReturn msg, ws)
      | Inr m \<Rightarrow>
          (case dom_throws p el m of
             Some x \<Rightarrow> (LoopThrow x, ws)
           | None \<Rightarrow> modify_loop p act v a els (modifiedCount + 1) (ws @ [(el, m)])))"

text \<open>A natural number as JavaScript prints it in a template literal.\<close>

definition digit_char :: "nat \<Rightarrow> char" where
  "digit_char d = ''0123456789'' ! d"

fun string_of_nat :: "nat \<Rightarrow> string" where
  "string_of_nat n =
     (if n < 10 then [digit_char n]
      else string_of_nat (n div 10) @ [digit_char (n mod 10)])"

declare string_of_nat.simps [simp del]

datatype modify_result = ModifyFailed string | Modified nat string

definition modifyDom_func ::
  "string \<Rightarrow> string \<Rightarrow> string option \<Rightarrow> string option \<Rightarrow> bool \<Rightarrow> page
     \<Rightarrow> (js_exn + modify_result) \<times> (nat \<times> mutation) list" where
  "modifyDom_func sel act v a all p =
     (case query p sel of
        Inl x \<Rightarrow> (Inr (ModifyFailed (error_message x ''DOM modification failed'')), [])
      | Inr found \<Rightarrow>
          (let elements = (if all then found else take 1 found)
           in if length elements = 0
              then (Inr (ModifyFailed (''No elements found matching: '' @ sel)), [])
              else
                (case modify_loop p act v a elements 0 [] of
                   (LoopDone n, ws) \<Rightarrow>
                     (Inr (Modified n (''Modified '' @ string_of_nat n @
                                       '' element(s) using '' @ act)), ws)
                 | (LoopReturn msg, ws) \<Rightarrow> (Inr (ModifyFailed msg), ws)
                 | (LoopThrow x, ws) \<Rightarrow>
                     (Inr (ModifyFailed (error_message x ''DOM modification failed'')), ws))))"

definition modifyDomInTab :: "env \<Rightarrow> request \<Rightarrow> bg_state \<Rightarrow> (js_exn + response) \<times> bg_state" where
  "modifyDomInTab e req s =
     (case getActiveTab e s of
        (Inl x, s1) \<Rightarrow> (Inl x, s1)
      | (Inr t, s1) \<Rightarrow>
          (let sel = (case params req of None \<Rightarrow> None | Some ps \<Rightarrow> selector ps);
               act = (case params req of None \<Rightarrow> None | Some ps \<Rightarrow> action_param ps);
               v = (case params req of None \<Rightarrow> None | Some ps \<Rightarrow> value_param ps);
               a = (case params req of None \<Rightarrow> None | Some ps \<Rightarrow> attributeName ps);
               all = (case params req of None \<Rightarrow> False
                      | Some ps \<Rightarrow> (case all_param ps of None \<Rightarrow> False | Some b \<Rightarrow> b))
           in if falsy sel then (Inr (fail_response req ''No selector provided''), s1)
              else if falsy act then (Inr (fail_response req ''No action provided''), s1)
              else
                (case executeScript e (tab_id_of t)
                        (modifyDom_func (or_empty sel) (or_empty act) v a all) s1 of
                   (Inl x, s2) \<Rightarrow>
                     (Inr (fail_response req (error_message x ''Failed to modify DOM'')), s2)
                 | (Inr None, s2) \<Rightarrow> (Inr (fail_response req ''DOM modification failed''), s2)
                 | (Inr (Some (ModifyFailed msg)), s2) \<Rightarrow>
                     (Inr (fail_response req
                             (if msg = [] then ''DOM modification failed'' else msg)), s2)
                 | (Inr (Some (Modified n msg)), s2) \<Rightarrow>
                     (Inr (ok_response req (Some (ModifyData n msg))), s2))))"

section \<open>Log buffer: the debugger session and its events\<close>

definition attachDebuggerToTab :: "env \<Rightarrow> nat \<Rightarrow> bg_state \<Rightarrow> js_exn option \<times> bg_state" where
  "attachDebuggerToTab e tabId s =
     (if tabId \<in> attachedTabs s then (None, s)
      else
        let s1 = s\<lparr>calls := calls s @ [DebuggerAttach tabId]\<rparr>
        in case attach_result e of
             Some x \<Rightarrow> (Some x, s1)
           | None \<Rightarrow>
               (let s2 = s1\<lparr>attachedTabs := insert tabId (attachedTabs s1),
                            consoleLogs := (consoleLogs s1)(tabId \<mapsto> [])\<rparr>;
                    s3 = s2\<lparr>calls := calls s2 @ [DebuggerSendCommand tabId ''Log.enable'']\<rparr>
                in case sendCommand_result e ''Log.enable'' of
                     Some x \<Rightarrow> (Some x, s3)
                   | None \<Rightarrow>
                       (sendCommand_result e ''Runtime.enable'',
                        s3\<lparr>calls := calls s3 @ [DebuggerSendCommand tabId ''Runtime.enable'']\<rparr>)))"

text \<open>\<open>detachDebuggerFromTab\<close>; the flag says whether \<open>chrome.debugger.detach\<close> rejects.\<close>

definition detachDebuggerFromTab :: "bool \<Rightarrow> nat \<Rightarrow> bg_state \<Rightarrow> bg_state" where
  "detachDebuggerFromTab detach_rejects tabId s =
     (if tabId \<notin> attachedTabs s then s
      else
        let s1 = s\<lparr>calls := calls s @ [DebuggerDetach tabId]\<rparr>
        in if detach_rejects then s1
           else s1\<lparr>attachedTabs := attachedTabs s1 - {tabId}\<rparr>)"

text \<open>
  The level tables are object literals indexed with a string that comes from outside.
  Such a lookup finds the literal's own keys and also the properties every object
  inherits from \<open>Object.prototype\<close>; the inherited values are functions (for \<open>__proto__\<close>,
  the prototype object), so truthy and not arrays.
\<close>

definition object_prototype_keys :: "string list" where
  "object_prototype_keys =
     [''constructor'', ''toString'', ''toLocaleString'', ''valueOf'', ''hasOwnProperty'',
      ''isPrototypeOf'', ''propertyIsEnumerable'', ''__proto__'', ''__defineGetter__'',
      ''__defineSetter__'', ''__lookupGetter__'', ''__lookupSetter__'']"

datatype js_lookup = OwnLevels "string list" | Inherited | Absent

text \<open>\<open>levelMap[params.level]\<close> in \<open>getConsoleLogs\<close>.\<close>

definition levelMap :: "string \<Rightarrow> js_lookup" where
  "levelMap l =
     (if l = ''error'' then OwnLevels [''error'']
      else if l = ''warning'' then OwnLevels [''warning'']
      else if l = ''info'' then OwnLevels [''info'', ''log'']
      else if l \<in> set object_prototype_keys then Inherited
      else Absent)"

text \<open>\<open>levelMap[params.level] || []\<close>: an array of level names, or an inherited value.\<close>

datatype allowed_levels = LevelArray "string list" | NotAnArray

definition allowedLevels :: "string \<Rightarrow> allowed_levels" where
  "allowedLevels l =
     (case levelMap l of
        OwnLevels xs \<Rightarrow> LevelArray xs
      | Inherited \<Rightarrow> NotAnArray
      | Absent \<Rightarrow> LevelArray [])"

text \<open>
  \<^verbatim>\<open>logs.filter(log => allowedLevels.includes(log.level))\<close>. An inherited value has no
  \<open>includes\<close>: the callback throws a TypeError on the first record, and is never called on
  an empty ring.
\<close>

definition filter_by_level :: "allowed_levels \<Rightarrow> entry list \<Rightarrow> js_exn + entry list" where
  "filter_by_level al logs =
     (case al of
        LevelArray xs \<Rightarrow>
          Inr (filter (\<lambda>log. case entry_level log of
                               LevelName n \<Rightarrow> n \<in> set xs
                             | InheritedValue \<Rightarrow> False) logs)
      | NotAnArray \<Rightarrow>
          (if logs = [] then Inr []
           else Inl (Error ''allowedLevels.includes is not a function'')))"

definition getConsoleLogs :: "env \<Rightarrow> request \<Rightarrow> bg_state \<Rightarrow> (js_exn + response) \<times> bg_state" where
  "getConsoleLogs e req s =
     (case getActiveTab e s of
        (Inl x, s1) \<Rightarrow> (Inl x, s1)
      | (Inr t, s1) \<Rightarrow>
          (let tabId = tab_id_of t
           in case (if tabId \<notin> attachedTabs s1 then attachDebuggerToTab e tabId s1
                    else (None, s1)) of
                (Some x, s2) \<Rightarrow>
                  (Inr (fail_response req
                          (''Failed to attach debugger: '' @ error_message x ''Unknown error'')), s2)
              | (None, s2) \<Rightarrow>
                  (let stored = (case consoleLogs s2 tabId of None \<Rightarrow> [] | Some l \<Rightarrow> l);
                       lvl = (case params req of None \<Rightarrow> None | Some ps \<Rightarrow> level ps)
                   in case (if \<not> falsy lvl \<and> or_empty lvl \<noteq> ''all''
                            then filter_by_level (allowedLevels (or_empty lvl)) stored
                            else Inr stored) of
                        Inl x \<Rightarrow> (Inl x, s2)
                      | Inr logs \<Rightarrow>
                          (let clr = (case params req of None \<Rightarrow> False
                                      | Some ps \<Rightarrow>
                                          (case clear ps of None \<Rightarrow> False | Some b \<Rightarrow> b));
                               s3 = (if clr
                                     then s2\<lparr>consoleLogs := (consoleLogs s2)(tabId \<mapsto> [])\<rparr>
                                     else s2)
                           in (Inr (ok_response req
                                      (Some (LogsData logs tabId (tab_url t)
                                               (tabId \<in> attachedTabs s3)))),
                               s3)))))"

text \<open>The debugger events the listener understands, with the fields it reads.\<close>

record call_frame =
  functionName :: string
  frame_url :: string
  frame_line :: nat
  frame_column :: nat

text \<open>
  A console argument (a RemoteObject): a number comes with its \<open>String(value)\<close>, an object
  with a preview comes with the preview's description and the JSON text of its first
  five properties, anything else with its type and description.
\<close>

datatype remote_object =
    RString string
  | RNumber string
  | RBoolean bool
  | RUndefined
  | RObjectPreview "string option" string
  | ROther string "string option"

datatype dbg_event =
    LogEntryAdded string string "string option" "nat option" "call_frame list option"
  | ConsoleAPICalled string "remote_object list option" "call_frame list option"
  | ExceptionThrown "string option" "string option" "string option" "nat option"
      "call_frame list option"
  | OtherEvent string

fun join :: "string \<Rightarrow> string list \<Rightarrow> string" where
  "join sep [] = []"
| "join sep [x] = x"
| "join sep (x # y # ys) = x @ sep @ join sep (y # ys)"

definition format_frame :: "call_frame \<Rightarrow> string" where
  "format_frame f =
     ''  at '' @ (if functionName f = [] then ''(anonymous)'' else functionName f) @
     '' ('' @ frame_url f @ '':'' @ string_of_nat (frame_line f) @ '':'' @
     string_of_nat (frame_column f) @ '')''"

definition format_stack :: "call_frame list option \<Rightarrow> string option" where
  "format_stack st =
     (case st of None \<Rightarrow> None | Some fs \<Rightarrow> Some (join [CHR 0x0A] (map format_frame fs)))"

definition format_arg :: "remote_object \<Rightarrow> string" where
  "format_arg arg =
     (case arg of
        RString v \<Rightarrow> v
      | RNumber n \<Rightarrow> n
      | RBoolean b \<Rightarrow> (if b then ''true'' else ''false'')
      | RUndefined \<Rightarrow> ''undefined''
      | RObjectPreview d props \<Rightarrow> (if falsy d then props else or_empty d)
      | ROther ty d \<Rightarrow> (if falsy d then ''['' @ ty @ '']'' else or_empty d))"

text \<open>
  \<open>levelMap[consoleEvent.type] || 'log'\<close> in the listener, on its own table: an inherited
  value is truthy and is stored as the level.
\<close>

definition console_level :: "string \<Rightarrow> js_level" where
  "console_level ty =
     (if ty = ''log'' then LevelName ''log''
      else if ty = ''info'' then LevelName ''info''
      else if ty = ''warn'' then LevelName ''warning''
      else if ty = ''warning'' then LevelName ''warning''
      else if ty = ''error'' then LevelName ''error''
      else if ty = ''debug'' then LevelName ''debug''
      else if ty \<in> set object_prototype_keys then InheritedValue
      else LevelName ''log'')"

text \<open>The entry the listener builds from an event at time \<open>now\<close> (\<open>Date.now()\<close>), if any.\<close>

definition to_entry :: "dbg_event \<Rightarrow> nat \<Rightarrow> entry option" where
  "to_entry ev now =
     (case ev of
        LogEntryAdded lv tx u ln st \<Rightarrow>
          Some \<lparr>entry_level = LevelName lv, entry_text = tx, timestamp = now, entry_url = u,
                lineNumber = ln, stackTrace = format_stack st\<rparr>
      | ConsoleAPICalled ty args st \<Rightarrow>
          Some \<lparr>entry_level = console_level ty,
                entry_text = (case args of None \<Rightarrow> [] | Some as \<Rightarrow> join '' '' (map format_arg as)),
                timestamp = now, entry_url = None, lineNumber = None,
                stackTrace = format_stack st\<rparr>
      | ExceptionThrown tx descr u ln st \<Rightarrow>
          Some \<lparr>entry_level = LevelName ''error'',
                entry_text = (if \<not> falsy tx then or_empty tx
                              else if \<not> falsy descr then or_empty descr
                              else ''Unknown error''),
                timestamp = now, entry_url = u, lineNumber = ln,
                stackTrace = format_stack st\<rparr>
      | OtherEvent m \<Rightarrow> None)"

text \<open>
  The end of the listener: push the entry on the tab's ring and trim the ring from the
  front when it is longer than \<open>MAX_LOGS_PER_TAB\<close> (\<open>logs.splice(0, logs.length - MAX)\<close>).
\<close>

definition push_entry :: "entry list \<Rightarrow> entry \<Rightarrow> entry list" where
  "push_entry ring en =
     (let logs = ring @ [en]
      in if length logs > MAX_LOGS_PER_TAB
         then drop (length logs - MAX_LOGS_PER_TAB) logs
         else logs)"

definition debugger_onEvent :: "nat option \<Rightarrow> dbg_event \<Rightarrow> nat \<Rightarrow> bg_state \<Rightarrow> bg_state" where
  "debugger_onEvent src ev now s =
     (case src of
        None \<Rightarrow> s
      | Some tabId \<Rightarrow>
          (if tabId = 0 \<or> tabId \<notin> attachedTabs s then s
           else
             (case to_entry ev now of
                None \<Rightarrow> s
              | Some en \<Rightarrow>
                  s\<lparr>consoleLogs := (consoleLogs s)
                       (tabId \<mapsto> push_entry
                                   (case consoleLogs s tabId of None \<Rightarrow> [] | Some l \<Rightarrow> l) en)\<rparr>)))"

definition debugger_onDetach :: "nat option \<Rightarrow> bg_state \<Rightarrow> bg_state" where
  "debugger_onDetach src s =
     (case src of
        None \<Rightarrow> s
      | Some tabId \<Rightarrow>
          (if tabId = 0 then s else s\<lparr>attachedTabs := attachedTabs s - {tabId}\<rparr>))"

definition tabs_onRemoved :: "nat \<Rightarrow> bg_state \<Rightarrow> bg_state" where
  "tabs_onRemoved tabId s =
     s\<lparr>attachedTabs := attachedTabs s - {tabId},
       consoleLogs := (consoleLogs s)(tabId := None)\<rparr>"

section \<open>Request router: dispatch\<close>

text \<open>The \<open>switch (request.action)\<close> of \<open>handleBrowserContextRequest\<close>.\<close>

definition dispatch_action :: "env \<Rightarrow> request \<Rightarrow> bg_state \<Rightarrow> (js_exn + response) \<times> bg_state" where
  "dispatch_action e req s =
     (if action req = ''getDom'' then getActiveTabDom e req s
      else if action req = ''getSelection'' then getActiveTabSelection e req s
      else if action req = ''getUrl'' then getActiveTabUrl e req s
      else if action req = ''screenshot'' then captureActiveTabScreenshot e req s
      else if action req = ''executeScript'' then executeScriptInTab e req s
      else if action req = ''modifyDom'' then modifyDomInTab e req s
      else if action req = ''getConsoleLogs'' then getConsoleLogs e req s
      else (Inr (fail_response req (''Unknown action: '' @ action req)), s))"

text \<open>
  \<open>handleBrowserContextRequest\<close>: the response of the handler is sent; an exception of
  the handler is caught and an error response is sent instead.
\<close>

definition handleBrowserContextRequest :: "env \<Rightarrow> request \<Rightarrow> bg_state \<Rightarrow> bg_state" where
  "handleBrowserContextRequest e req s =
     (case dispatch_action e req s of
        (Inr resp, s1) \<Rightarrow> snd (sendToBackend (BrowserResponse resp) s1)
      | (Inl x, s1) \<Rightarrow>
          snd (sendToBackend
                 (BrowserResponse (fail_response req (error_message x ''Unknown error''))) s1))"

definition handleBackendMessage :: "env \<Rightarrow> ws_message \<Rightarrow> bg_state \<Rightarrow> bg_state" where
  "handleBackendMessage e m s =
     (case m of
        TerminalOutput d \<Rightarrow> broadcastToExtension m s
      | BrowserRequest req \<Rightarrow> handleBrowserContextRequest e req s
      | _ \<Rightarrow> s)"

text \<open>\<open>socket.onmessage\<close>; \<open>None\<close> is a payload that \<open>JSON.parse\<close> rejects.\<close>

definition socket_onmessage :: "env \<Rightarrow> ws_message option \<Rightarrow> bg_state \<Rightarrow> bg_state" where
  "socket_onmessage e payload s =
     (case payload of None \<Rightarrow> s | Some m \<Rightarrow> handleBackendMessage e m s)"

section \<open>Messages from the side panel\<close>

text \<open>
  What the \<open>chrome.runtime.onMessage\<close> listener tells apart: a ping, terminal input and
  resize, a \<open>connection:status\<close> message with an \<open>action\<close> field, and anything else.
\<close>

datatype runtime_message =
    Ping
  | TerminalInputMsg string
  | TerminalResizeMsg nat nat
  | StatusAction string
  | OtherMessage

datatype listener_reply = PongReply conn_status | SuccessReply

definition runtime_onMessage ::
  "bool \<Rightarrow> runtime_message \<Rightarrow> bg_state \<Rightarrow> listener_reply option \<times> bg_state" where
  "runtime_onMessage ctor_throws m s =
     (case m of
        Ping \<Rightarrow>
          (let status = (if socket_open s then Connected else Disconnected)
           in (Some (PongReply status), s\<lparr>status_timers := status_timers s @ [status]\<rparr>))
      | TerminalInputMsg d \<Rightarrow> (Some SuccessReply, snd (sendToBackend (TerminalInput d) s))
      | TerminalResizeMsg c r \<Rightarrow> (Some SuccessReply, snd (sendToBackend (TerminalResize c r) s))
      | StatusAction a \<Rightarrow>
          (if a = ''reconnect''
           then (Some SuccessReply, connectToBackend ctor_throws (s\<lparr>reconnectAttempts := 0\<rparr>))
           else (None, s))
      | OtherMessage \<Rightarrow> (None, s))"

section \<open>The event loop\<close>

text \<open>
  The service worker is single-threaded: its state changes only when the browser runs
  one of its callbacks. Each handler is taken to run to completion. For a socket event
  the browser has set the \<open>readyState\<close> of the WebSocket object before the callback runs;
  the handlers are the same for every WebSocket object ever created.
\<close>

datatype event =
    WsOpen nat
  | WsClose nat
  | WsError nat
  | WsMessage nat "ws_message option" env
  | ReconnectTimer bool
  | KeepAliveTick bool
  | StatusTimer
  | RuntimeMessage runtime_message bool
  | DebuggerEvent "nat option" dbg_event nat
  | DebuggerDetached "nat option"
  | TabRemoved nat

definition step :: "bg_state \<Rightarrow> event \<Rightarrow> bg_state" where
  "step s ev =
     (case ev of
        WsOpen i \<Rightarrow>
          (if i < length (ws_objects s) \<and> ws_objects s ! i = CONNECTING
           then socket_onopen (s\<lparr>ws_objects := (ws_objects s)[i := OPEN]\<rparr>) else s)
      | WsClose i \<Rightarrow>
          (if i < length (ws_objects s) \<and> ws_objects s ! i \<noteq> CLOSED
           then socket_onclose (s\<lparr>ws_objects := (ws_objects s)[i := CLOSED]\<rparr>) else s)
      | WsError i \<Rightarrow> (if i < length (ws_objects s) then socket_onerror s else s)
      | WsMessage i payload e \<Rightarrow>
          (if i < length (ws_objects s) \<and> ws_objects s ! i = OPEN
           then socket_onmessage e payload s else s)
      | ReconnectTimer c \<Rightarrow>
          (if 0 < reconnect_timers s
           then connectToBackend c (s\<lparr>reconnect_timers := reconnect_timers s - 1\<rparr>) else s)
      | KeepAliveTick c \<Rightarrow> (if \<not> socket_open s then connectToBackend c s else s)
      | StatusTimer \<Rightarrow>
          (case status_timers s of
             [] \<Rightarrow> s
           | st # rest \<Rightarrow>
               broadcastToExtension (ConnectionStatus st None) (s\<lparr>status_timers := rest\<rparr>))
      | RuntimeMessage m c \<Rightarrow> snd (runtime_onMessage c m s)
      | DebuggerEvent src dev now \<Rightarrow> debugger_onEvent src dev now s
      | DebuggerDetached src \<Rightarrow> debugger_onDetach src s
      | TabRemoved tabId \<Rightarrow> tabs_onRemoved tabId s)"

fun run :: "bg_state \<Rightarrow> event list \<Rightarrow> bg_state" where
  "run s [] = s"
| "run s (ev # evs) = run (step s ev) evs"

text \<open>The state when the module has been loaded, before its last statement \<open>connectToBackend()\<close>.\<close>

definition boot :: bg_state where
  "boot =
     \<lparr>socket = None, ws_objects = [], reconnectAttempts = 0, reconnect_timers = 0,
      status_timers = [], broadcasts = [], backend_sends = [], consoleLogs = Map.empty,
      attachedTabs = {}, calls = [], dom_writes = []\<rparr>"

definition startup :: "bool \<Rightarrow> bg_state" where
  "startup ctor_throws = connectToBackend ctor_throws boot"

section \<open>Round trips to the content script\<close>

text \<open>
  \<open>_sendToContentScript\<close> returns a promise, arms a timer of 10000 ms that rejects it,
  and sends the message to the tab with a callback that clears the timer and settles the
  promise. One call is followed here through the callbacks the browser may run for it:
  the timer firing (only while armed) and the response callback, with
  \<open>chrome.runtime.lastError\<close> and the response it sees. A promise settles once: \<open>resolve\<close>
  and \<open>reject\<close> on a settled promise do nothing. \<open>pendingRequests\<close> are the keys of the
  module's \<open>_pendingRequests\<close> map: it is created empty and no code of the module writes it.
\<close>

record content_message =
  cm_type :: string
  cm_requestId :: string

record content_response =
  cr_requestId :: string
  cr_success :: bool
  cr_error :: "string option"

datatype promise_state = Pending | Resolved "content_response option" | Rejected js_exn

datatype timer_state = Armed | Fired | Cleared

record cs_call =
  sent_to_tab :: "nat \<times> content_message"
  promise :: promise_state
  timeout_timer :: timer_state
  timeout_delay :: nat
  pendingRequests :: "string set"

datatype cs_event = TimeoutFires | ResponseCallback "string option" "content_response option"

definition settle :: "promise_state \<Rightarrow> promise_state \<Rightarrow> promise_state" where
  "settle p outcome = (if p = Pending then outcome else p)"

definition sendToContentScript :: "nat \<Rightarrow> content_message \<Rightarrow> cs_call" where
  "sendToContentScript tabId message =
     \<lparr>sent_to_tab = (tabId, message), promise = Pending, timeout_timer = Armed,
      timeout_delay = 10000, pendingRequests = {}\<rparr>"

definition cs_step :: "cs_call \<Rightarrow> cs_event \<Rightarrow> cs_call" where
  "cs_step c ev =
     (case ev of
        TimeoutFires \<Rightarrow>
          (if timeout_timer c = Armed
           then c\<lparr>timeout_timer := Fired,
                  promise := settle (promise c)
                               (Rejected (Error ''Content script response timeout''))\<rparr>
           else c)
      | ResponseCallback lastError resp \<Rightarrow>
          c\<lparr>timeout_timer := (if timeout_timer c = Armed then Cleared else timeout_timer c),
            promise := settle (promise c)
                         (case lastError of
                            Some m \<Rightarrow> Rejected (Error m)
                          | None \<Rightarrow> Resolved resp)\<rparr>)"

fun cs_run :: "cs_call \<Rightarrow> cs_event list \<Rightarrow> cs_call" where
  "cs_run c [] = c"
| "cs_run c (ev # evs) = cs_run (cs_step c ev) evs"

section \<open>Auxiliary notions for the statements\<close>

text \<open>\<^verbatim>\<open>socket?.readyState === WebSocket.CONNECTING\<close>: a connection attempt is in progress.\<close>

definition socket_connecting :: "bg_state \<Rightarrow> bool" where
  "socket_connecting s =
     (case socket s of
        None \<Rightarrow> False
      | Some i \<Rightarrow> i < length (ws_objects s) \<and> ws_objects s ! i = CONNECTING)"

text \<open>The part of the state that belongs to the connection manager is the same in both states.\<close>

definition same_connection :: "bg_state \<Rightarrow> bg_state \<Rightarrow> bool" where
  "same_connection s s' =
     (socket s' = socket s \<and> ws_objects s' = ws_objects s \<and>
      reconnectAttempts s' = reconnectAttempts s \<and> reconnect_timers s' = reconnect_timers s \<and>
      status_timers s' = status_timers s \<and> broadcasts s' = broadcasts s \<and>
      backend_sends s' = backend_sends s)"

text \<open>
  What every handler guarantees to the dispatcher: it leaves the connection alone, and
  a response it returns carries the identifier of the request.
\<close>

definition handler_ok :: "request \<Rightarrow> bg_state \<Rightarrow> (js_exn + response) \<times> bg_state \<Rightarrow> bool" where
  "handler_ok req s out =
     (same_connection s (snd out) \<and>
      (case fst out of Inl x \<Rightarrow> True | Inr r \<Rightarrow> resp_requestId r = requestId req))"

text \<open>Concrete pages, tabs and browsers for the examples below.\<close>

definition example_page :: page where
  "example_page =
     \<lparr>query = (\<lambda>sel. if sel = ''p'' then Inr [1, 2, 3] else Inr []),
      outerHTML = (\<lambda>el. ''<p></p>''), href = ''https://example.com/'',
      doc_title = ''Example'', selection_text = None,
      dom_throws = (\<lambda>el m. None),
      script_throws = (\<lambda>src. if src = ''undefinedFunction()''
                              then Some (Error ''undefinedFunction is not defined'')
                              else None)\<rparr>"

definition example_env :: "string \<Rightarrow> env" where
  "example_env u =
     \<lparr>active_tabs = [\<lparr>tab_id = Some 7, tab_url = Some u, tab_title = Some ''Example''\<rparr>],
      inject = InjectRuns, uncaught_rejects = False, page = example_page,
      capture = Inr ''data:image/png;base64,iVBORw0KGgo='', attach_result = None,
      sendCommand_result = (\<lambda>cmd. None)\<rparr>"

definition no_params :: request_params where
  "no_params =
     \<lparr>selector = None, includeStyles = None, script = None, action_param = None,
      value_param = None, attributeName = None, all_param = None, level = None, clear = None\<rparr>"

text \<open>A \<open>modifyDom\<close> request for the selector \<open>p\<close>.\<close>

definition modify_request :: "string \<Rightarrow> string option \<Rightarrow> string option \<Rightarrow> bool \<Rightarrow> request" where
  "modify_request act v a all =
     \<lparr>requestId = ''r1'', action = ''modifyDom'',
      params = Some (no_params\<lparr>selector := Some ''p'', action_param := Some act,
                                value_param := v, attributeName := a,
                                all_param := Some all\<rparr>)\<rparr>"

text \<open>
  The cases in which \<open>getActiveTab\<close> throws: no tab, a tab without an identifier, or a
  tab whose address starts with one of the five restricted prefixes.
\<close>

definition unresolvable :: "env \<Rightarrow> bool" where
  "unresolvable e =
     (case active_tabs e of
        [] \<Rightarrow> True
      | t # _ \<Rightarrow> tab_id t = None \<or> tab_id t = Some 0 \<or> restricted_url (or_empty (tab_url t)))"

text \<open>
  The invariant of the log buffer: every tab with a debugger session has a ring, and no
  ring is longer than \<open>MAX_LOGS_PER_TAB\<close>.
\<close>

definition log_invariant :: "bg_state \<Rightarrow> bool" where
  "log_invariant s =
     (attachedTabs s \<subseteq> dom (consoleLogs s) \<and>
      (\<forall>t l. consoleLogs s t = Some l \<longrightarrow> length l \<le> MAX_LOGS_PER_TAB))"

text \<open>Sessions and rings are the same in both states.\<close>

definition same_logs :: "bg_state \<Rightarrow> bg_state \<Rightarrow> bool" where
  "same_logs s s' = (consoleLogs s' = consoleLogs s \<and> attachedTabs s' = attachedTabs s)"

text \<open>A log entry, a state in which tab 7 has a session and a given ring, and a log request.\<close>

definition example_entry :: "string \<Rightarrow> entry" where
  "example_entry lv =
     \<lparr>entry_level = LevelName lv, entry_text = ''message'', timestamp = 0, entry_url = None,
      lineNumber = None, stackTrace = None\<rparr>"

definition logging_state :: "entry list \<Rightarrow> bg_state" where
  "logging_state ring = boot\<lparr>attachedTabs := {7}, consoleLogs := [7 \<mapsto> ring]\<rparr>"

definition logs_request :: "string option \<Rightarrow> bool \<Rightarrow> request" where
  "logs_request lv clr =
     \<lparr>requestId = ''r1'', action = ''getConsoleLogs'',
      params = Some (no_params\<lparr>level := lv, clear := Some clr\<rparr>)\<rparr>"

section \<open>Frame properties of the handlers\<close>

lemma same_connection_trans:
  "same_connection s s1 \<Longrightarrow> same_connection s1 s2 \<Longrightarrow> same_connection s s2"
  by (simp add: same_connection_def)


lemma getActiveTab_same: "getActiveTab e s = (r, s1) \<Longrightarrow> same_connection s s1"
  by (auto simp add: getActiveTab_def same_connection_def Let_def split: list.splits if_splits)

lemma executeScript_same: "executeScript e t f s = (r, s1) \<Longrightarrow> same_connection s s1"
  by (auto simp add: executeScript_def same_connection_def Let_def
        split: inject_outcome.splits prod.splits sum.splits if_splits)

lemma attachDebuggerToTab_same: "attachDebuggerToTab e t s = (r, s1) \<Longrightarrow> same_connection s s1"
  by (auto simp add: attachDebuggerToTab_def same_connection_def Let_def
        split: option.splits if_splits)

lemma getActiveTabDom_ok: "handler_ok req s (getActiveTabDom e req s)"
  by (auto simp add: getActiveTabDom_def handler_ok_def fail_response_def ok_response_def
        split: prod.splits sum.splits option.splits dom_result.splits
        dest!: getActiveTab_same executeScript_same intro: same_connection_trans)

lemma getActiveTabSelection_ok: "handler_ok req s (getActiveTabSelection e req s)"
  by (auto simp add: getActiveTabSelection_def handler_ok_def fail_response_def ok_response_def
        split: prod.splits sum.splits option.splits
        dest!: getActiveTab_same executeScript_same intro: same_connection_trans)

lemma getActiveTabUrl_ok: "handler_ok req s (getActiveTabUrl e req s)"
  by (auto simp add: getActiveTabUrl_def handler_ok_def fail_response_def ok_response_def
        split: prod.splits sum.splits option.splits
        dest!: getActiveTab_same)

lemma captureActiveTabScreenshot_ok: "handler_ok req s (captureActiveTabScreenshot e req s)"
  by (auto simp add: captureActiveTabScreenshot_def handler_ok_def fail_response_def
        ok_response_def same_connection_def Let_def split: sum.splits)

lemma executeScriptInTab_ok: "handler_ok req s (executeScriptInTab e req s)"
  by (auto simp add: executeScriptInTab_def handler_ok_def fail_response_def ok_response_def
        Let_def
        split: prod.splits sum.splits option.splits if_splits
        dest!: getActiveTab_same executeScript_same intro: same_connection_trans)

lemma modifyDomInTab_ok: "handler_ok req s (modifyDomInTab e req s)"
  by (auto simp add: modifyDomInTab_def handler_ok_def fail_response_def ok_response_def Let_def
        split: prod.splits sum.splits option.splits if_splits modify_result.splits
        dest!: getActiveTab_same executeScript_same intro: same_connection_trans)

lemma getConsoleLogs_ok: "handler_ok req s (getConsoleLogs e req s)"
proof (cases "getActiveTab e s")
  case (Pair r s1)
  have a: "same_connection s s1" using Pair by (rule getActiveTab_same)
  show ?thesis
  proof (cases r)
    case (Inl x)
    then show ?thesis using Pair a by (simp add: getConsoleLogs_def handler_ok_def)
  next
    case (Inr t)
    obtain r2 s2 where att:
      "(if tab_id_of t \<notin> attachedTabs s1 then attachDebuggerToTab e (tab_id_of t) s1
        else (None, s1)) = (r2, s2)"
      by (cases "if tab_id_of t \<notin> attachedTabs s1 then attachDebuggerToTab e (tab_id_of t) s1
                 else (None, s1)")
    have b: "same_connection s1 s2"
      using att attachDebuggerToTab_same [of e "tab_id_of t" s1 r2 s2]
      by (auto simp add: same_connection_def split: if_splits)
    have c: "same_connection s s2" using a b by (rule same_connection_trans)
    show ?thesis using Pair Inr att c
      by (cases r2)
         (auto simp add: getConsoleLogs_def handler_ok_def Let_def fail_response_def
            ok_response_def same_connection_def split: sum.splits)
  qed
qed

lemma dispatch_action_ok: "handler_ok req s (dispatch_action e req s)"
  unfolding dispatch_action_def
  by (simp add: getActiveTabDom_ok getActiveTabSelection_ok getActiveTabUrl_ok
        captureActiveTabScreenshot_ok executeScriptInTab_ok modifyDomInTab_ok getConsoleLogs_ok)
     (simp add: handler_ok_def fail_response_def same_connection_def)

lemma dispatch_action_same: "dispatch_action e req s = (r, s1) \<Longrightarrow> same_connection s s1"
  using dispatch_action_ok [of req s e] by (simp add: handler_ok_def)


section \<open>One response for every request\<close>



section \<open>Connecting twice\<close>

text \<open>
  Claim C6 as it stands fails while a connection attempt is in progress. The guard of
  \<open>connectToBackend\<close> looks for an open socket only. Right after the module was loaded
  the first socket is still connecting; a second call of \<open>connectToBackend\<close>, as the
  keep-alive tick makes it, then broadcasts the status again and creates a second
  WebSocket object, which replaces the first one in the variable \<open>socket\<close>.
\<close>

theorem connect_while_connecting_counterexample:
  "socket_connecting (startup False) \<and>
   connectToBackend False (startup False) \<noteq> startup False \<and>
   ws_objects (startup False) = [CONNECTING] \<and>
   ws_objects (connectToBackend False (startup False)) = [CONNECTING, CONNECTING] \<and>
   socket (connectToBackend False (startup False)) = Some 1 \<and>
   broadcasts (connectToBackend False (startup False)) =
     broadcasts (startup False) @ [ConnectionStatus Connecting None] \<and>
   step (startup False) (KeepAliveTick False) = connectToBackend False (startup False)"
  by (simp add: startup_def boot_def connectToBackend_def socket_open_def socket_connecting_def
        broadcastToExtension_def step_def Let_def)

text \<open>
  Claim C6, amended. \<open>connectToBackend\<close> called while the socket is already connected
  (its \<open>readyState\<close> is OPEN) is a no-op: it creates no socket and changes no state.
\<close>

theorem connect_when_open_noop: "socket_open s \<Longrightarrow> connectToBackend c s = s"
  by (simp add: connectToBackend_def)

text \<open>The state after the first socket has opened.\<close>

theorem connect_when_open_noop_witness:
  "socket_open (step (startup False) (WsOpen 0)) \<and>
   connectToBackend False (step (startup False) (WsOpen 0)) = step (startup False) (WsOpen 0)"
proof -
  have h: "socket_open (step (startup False) (WsOpen 0))"
    by (simp add: startup_def boot_def connectToBackend_def socket_open_def step_def
          socket_onopen_def broadcastToExtension_def Let_def)
  show ?thesis using h connect_when_open_noop [OF h, of False] by simp
qed

section \<open>The reconnect counter\<close>

lemma socket_open_attempts: "socket_open (s\<lparr>reconnectAttempts := n\<rparr>) = socket_open s"
  by (simp add: socket_open_def split: option.splits)

lemma scheduleReconnect_le:
  "reconnectAttempts s \<le> MAX_RECONNECT_ATTEMPTS
     \<Longrightarrow> reconnectAttempts (scheduleReconnect s) \<le> MAX_RECONNECT_ATTEMPTS"
  by (simp add: scheduleReconnect_def broadcastToExtension_def)

lemma connectToBackend_le:
  "reconnectAttempts s \<le> MAX_RECONNECT_ATTEMPTS
     \<Longrightarrow> reconnectAttempts (connectToBackend c s) \<le> MAX_RECONNECT_ATTEMPTS"
  by (simp add: connectToBackend_def Let_def scheduleReconnect_def broadcastToExtension_def)

lemma handleBrowserContextRequest_same:
  "same_connection s
     ((handleBrowserContextRequest e req s)\<lparr>backend_sends := backend_sends s\<rparr>)"
proof (cases "dispatch_action e req s")
  case (Pair r s1)
  then have "same_connection s s1" by (rule dispatch_action_same)
  then show ?thesis using Pair
    by (simp add: handleBrowserContextRequest_def sendToBackend_def same_connection_def
          split: sum.splits)
qed

lemma socket_onmessage_attempts:
  "reconnectAttempts (socket_onmessage e payload s) = reconnectAttempts s"
  using handleBrowserContextRequest_same
  by (simp add: socket_onmessage_def handleBackendMessage_def broadcastToExtension_def
        same_connection_def split: option.splits ws_message.splits)

lemma step_attempts_le:
  "reconnectAttempts s \<le> MAX_RECONNECT_ATTEMPTS
     \<Longrightarrow> reconnectAttempts (step s ev) \<le> MAX_RECONNECT_ATTEMPTS"
proof (cases ev)
  case (WsClose i)
  assume le: "reconnectAttempts s \<le> MAX_RECONNECT_ATTEMPTS"
  show ?thesis using WsClose le
    by (simp add: step_def socket_onclose_def scheduleReconnect_def broadcastToExtension_def)
qed (simp_all add: step_def socket_onopen_def socket_onerror_def broadcastToExtension_def
       socket_onmessage_attempts connectToBackend_le runtime_onMessage_def sendToBackend_def
       debugger_onEvent_def debugger_onDetach_def tabs_onRemoved_def
       split: list.splits runtime_message.splits option.splits)

lemma run_attempts_le:
  "reconnectAttempts s \<le> MAX_RECONNECT_ATTEMPTS
     \<Longrightarrow> reconnectAttempts (run s evs) \<le> MAX_RECONNECT_ATTEMPTS"
  by (induction evs arbitrary: s) (simp_all add: step_attempts_le)

lemma startup_attempts_le: "reconnectAttempts (startup c) \<le> MAX_RECONNECT_ATTEMPTS"
  by (simp add: startup_def boot_def connectToBackend_le)

text \<open>
  Claim C3. The reconnect counter is zero after the \<open>onopen\<close> handler. The manual
  reconnect message sets it to zero and then calls \<open>connectToBackend\<close>, so it is zero
  afterwards unless that very attempt fails at once (the WebSocket constructor throws),
  which counts as the first failed attempt. \<open>scheduleReconnect\<close>, which \<open>onclose\<close> runs for
  every failed attempt, adds one to the counter and arms one timer while the counter is
  below 10; at 10 it leaves the counter and the timers alone and only broadcasts the
  error status. In every state the service worker can reach the counter is at most 10.
\<close>

theorem reconnect_counter:
  "reconnectAttempts (socket_onopen s) = 0 \<and>
   snd (runtime_onMessage c (StatusAction ''reconnect'') s) =
     connectToBackend c (s\<lparr>reconnectAttempts := 0\<rparr>) \<and>
   reconnectAttempts (snd (runtime_onMessage c (StatusAction ''reconnect'') s)) =
     (if socket_open s \<or> \<not> c then 0 else 1) \<and>
   reconnectAttempts (scheduleReconnect s) =
     (if reconnectAttempts s < 10 then reconnectAttempts s + 1 else reconnectAttempts s) \<and>
   reconnect_timers (scheduleReconnect s) =
     (if reconnectAttempts s < 10 then reconnect_timers s + 1 else reconnect_timers s) \<and>
   broadcasts (scheduleReconnect s) =
     (if reconnectAttempts s < 10 then broadcasts s
      else broadcasts s @
             [ConnectionStatus StatusError
                (Some ''Failed to connect after multiple attempts. Is the backend running?'')]) \<and>
   reconnectAttempts (socket_onclose s) =
     (if reconnectAttempts s < 10 then reconnectAttempts s + 1 else reconnectAttempts s) \<and>
   reconnectAttempts (run (startup c0) evs) \<le> 10"
proof -
  have "reconnectAttempts (run (startup c0) evs) \<le> 10"
    using run_attempts_le [OF startup_attempts_le, of c0 evs]
    by (simp add: MAX_RECONNECT_ATTEMPTS_def)
  moreover have "reconnectAttempts (snd (runtime_onMessage c (StatusAction ''reconnect'') s)) =
     (if socket_open s \<or> \<not> c then 0 else 1)"
    by (simp add: runtime_onMessage_def connectToBackend_def socket_open_attempts Let_def
          scheduleReconnect_def broadcastToExtension_def MAX_RECONNECT_ATTEMPTS_def)
  ultimately show ?thesis
    by (simp add: socket_onopen_def socket_onclose_def scheduleReconnect_def
          broadcastToExtension_def runtime_onMessage_def MAX_RECONNECT_ATTEMPTS_def)
qed

text \<open>
  A state with ten failed attempts behind it: the next \<open>scheduleReconnect\<close> arms no timer.
  And the first failed attempt after the module was loaded.
\<close>

theorem reconnect_counter_witness:
  "reconnectAttempts (scheduleReconnect (boot\<lparr>reconnectAttempts := 10\<rparr>)) = 10 \<and>
   reconnect_timers (scheduleReconnect (boot\<lparr>reconnectAttempts := 10\<rparr>)) = 0 \<and>
   broadcasts (scheduleReconnect (boot\<lparr>reconnectAttempts := 10\<rparr>)) =
     [ConnectionStatus StatusError
        (Some ''Failed to connect after multiple attempts. Is the backend running?'')] \<and>
   reconnectAttempts (socket_onopen (boot\<lparr>reconnectAttempts := 10\<rparr>)) = 0 \<and>
   reconnectAttempts
     (snd (runtime_onMessage False (StatusAction ''reconnect'') (boot\<lparr>reconnectAttempts := 10\<rparr>)))
     = 0 \<and>
   reconnectAttempts (run (startup False) [WsClose 0]) \<le> 10"
  using reconnect_counter [of "boot\<lparr>reconnectAttempts := 10\<rparr>" False False "[WsClose 0]"]
  by (simp add: boot_def socket_open_def scheduleReconnect_def broadcastToExtension_def
        socket_onopen_def socket_onclose_def runtime_onMessage_def connectToBackend_def
        startup_def step_def Let_def MAX_RECONNECT_ATTEMPTS_def)

text \<open>
  The keep-alive tick does not look at the counter: with the socket not open it calls
  \<open>connectToBackend\<close> also after ten failed attempts.
\<close>

lemma keepalive_ignores_counter:
  "\<not> socket_open s \<Longrightarrow>
   ws_objects (step s (KeepAliveTick False)) = ws_objects s @ [CONNECTING] \<and>
   reconnectAttempts (step s (KeepAliveTick False)) = reconnectAttempts s"
  by (simp add: step_def connectToBackend_def broadcastToExtension_def Let_def)

section \<open>The restricted-page check\<close>

lemma getActiveTab_unresolvable:
  "unresolvable e \<Longrightarrow> \<exists>x. getActiveTab e s = (Inl x, s\<lparr>calls := calls s @ [TabsQuery]\<rparr>)"
  by (auto simp add: unresolvable_def getActiveTab_def Let_def split: list.splits)

text \<open>
  Six of the seven handlers start with \<open>getActiveTab\<close>: on a restricted page, or without
  an active tab, they throw after the tab query and before any scripting or debugger call.
\<close>

lemma guarded_actions_reject:
  assumes "unresolvable e"
    and "action req \<in> set [''getDom'', ''getSelection'', ''getUrl'', ''executeScript'',
                             ''modifyDom'', ''getConsoleLogs'']"
  shows "\<exists>x. dispatch_action e req s = (Inl x, s\<lparr>calls := calls s @ [TabsQuery]\<rparr>)"
proof -
  obtain x where x: "getActiveTab e s = (Inl x, s\<lparr>calls := calls s @ [TabsQuery]\<rparr>)"
    using getActiveTab_unresolvable [OF assms(1)] by blast
  show ?thesis using assms(2) x
    by (auto simp add: dispatch_action_def getActiveTabDom_def getActiveTabSelection_def
          getActiveTabUrl_def executeScriptInTab_def modifyDomInTab_def getConsoleLogs_def)
qed

text \<open>
  Claim C4 says that every capability action is rejected on a restricted page, or
  without an active tab, before any capability operation. \<open>captureActiveTabScreenshot\<close>
  does not call \<open>getActiveTab\<close>: with the active tab on \<open>chrome://settings/\<close> a \<open>screenshot\<close>
  request calls \<open>captureVisibleTab\<close> and answers with the image, where a \<open>getUrl\<close> request
  on the same tab is rejected; and with no active tab at all the capture is still made.
\<close>

theorem screenshot_on_restricted_page:
  "unresolvable (example_env ''chrome://settings/'') \<and>
   dispatch_action (example_env ''chrome://settings/'')
       \<lparr>requestId = ''r1'', action = ''screenshot'', params = None\<rparr> boot =
     (Inr \<lparr>resp_requestId = ''r1'', success = True,
           data = Some (ScreenshotData ''data:image/png;base64,iVBORw0KGgo='' ''png''),
           error = None\<rparr>,
      boot\<lparr>calls := [CaptureVisibleTab]\<rparr>) \<and>
   dispatch_action (example_env ''chrome://settings/'')
       \<lparr>requestId = ''r2'', action = ''getUrl'', params = None\<rparr> boot =
     (Inl (Error ''Cannot access restricted page: chrome://...''),
      boot\<lparr>calls := [TabsQuery]\<rparr>) \<and>
   unresolvable ((example_env ''https://example.com/'')\<lparr>active_tabs := []\<rparr>) \<and>
   calls (snd (dispatch_action ((example_env ''https://example.com/'')\<lparr>active_tabs := []\<rparr>)
                 \<lparr>requestId = ''r3'', action = ''screenshot'', params = None\<rparr> boot)) =
     [CaptureVisibleTab]"
  by (simp add: unresolvable_def example_env_def restricted_url_def startsWith_def or_empty_def
        dispatch_action_def captureActiveTabScreenshot_def getActiveTabUrl_def getActiveTab_def
        ok_response_def boot_def Let_def)

section \<open>Exceptions of an injected script\<close>

lemma getActiveTab_page: "getActiveTab (e\<lparr>page := p\<rparr>) s = getActiveTab e s"
  by (simp add: getActiveTab_def)

lemma executeScript_func_page:
  "executeScript (e\<lparr>page := p\<rparr>) t (executeScript_func src) s =
   executeScript e t (executeScript_func src) s"
  by (simp add: executeScript_def executeScript_func_def Let_def split: inject_outcome.splits)

text \<open>Whether the script throws in the page makes no difference to the response.\<close>

lemma executeScriptInTab_ignores_exception:
  "executeScriptInTab (e\<lparr>page := (page e)\<lparr>script_throws := f\<rparr>\<rparr>) req s =
   executeScriptInTab e req s"
  by (simp add: executeScriptInTab_def getActiveTab_page executeScript_func_page Let_def
        split: prod.splits sum.splits)

text \<open>A request without a script is answered with a failure, once the tab is resolved.\<close>

lemma executeScriptInTab_no_script:
  "getActiveTab e s = (Inr t, s1) \<Longrightarrow>
   falsy (case params req of None \<Rightarrow> None | Some ps \<Rightarrow> script ps) \<Longrightarrow>
   executeScriptInTab e req s = (Inr (fail_response req ''No script provided''), s1)"
  by (simp add: executeScriptInTab_def Let_def)

text \<open>
  Claim C5 says that an exception of the injected script is reported in the response as
  a failure. The script \<open>undefinedFunction()\<close> throws in the page; the wrapping function
  catches the exception and returns the \<open>__error\<close> object, which nothing reads, and the
  response is a success with the data \<^verbatim>\<open>{ success: true }\<close>.
\<close>

theorem executeScript_exception_reported_as_success:
  "wrappedScript_run (page (example_env ''https://example.com/'')) ''undefinedFunction()'' =
     IifeError ''undefinedFunction is not defined'' \<and>
   dispatch_action (example_env ''https://example.com/'')
       \<lparr>requestId = ''r1'', action = ''executeScript'',
        params = Some (no_params\<lparr>script := Some ''undefinedFunction()''\<rparr>)\<rparr> boot =
     (Inr \<lparr>resp_requestId = ''r1'', success = True, data = Some (ScriptData True),
           error = None\<rparr>,
      boot\<lparr>calls := [TabsQuery, ScriptingExecuteScript 7]\<rparr>)"
  by (simp add: example_env_def example_page_def wrappedScript_run_def error_message_def
        dispatch_action_def executeScriptInTab_def getActiveTab_def executeScript_def
        executeScript_func_def restricted_url_def startsWith_def or_empty_def falsy_def
        no_params_def ok_response_def boot_def tab_id_of_def Let_def)

section \<open>Counting the modified elements\<close>

lemma modify_loop_all:
  "mutation_for act v a = Inr m \<Longrightarrow> \<forall>el \<in> set els. dom_throws p el m = None \<Longrightarrow>
   modify_loop p act v a els n ws = (LoopDone (n + length els), ws @ map (\<lambda>el. (el, m)) els)"
  by (induction els arbitrary: n ws) simp_all

lemma modifyDom_func_none:
  "query p sel = Inr [] \<Longrightarrow>
   modifyDom_func sel act v a all p =
     (Inr (ModifyFailed (''No elements found matching: '' @ sel)), [])"
  by (simp add: modifyDom_func_def)

lemma modifyDom_func_some:
  assumes "query p sel = Inr found" and "(if all then found else take 1 found) = els"
    and "els \<noteq> []" and "mutation_for act v a = Inr m"
    and "\<forall>el \<in> set els. dom_throws p el m = None"
  shows "modifyDom_func sel act v a all p =
     (Inr (Modified (length els)
             (''Modified '' @ string_of_nat (length els) @ '' element(s) using '' @ act)),
      map (\<lambda>el. (el, m)) els)"
  using assms(1,2,3) modify_loop_all [OF assms(4) assms(5), of 0 "[]"]
  by (simp add: modifyDom_func_def Let_def)

lemma mutation_for_nonempty: "mutation_for act v a = Inr m \<Longrightarrow> act \<noteq> []"
  by (auto simp add: mutation_for_def split: if_splits)

lemma modifyDomInTab_runs:
  assumes "getActiveTab e s = (Inr t, s1)" and "inject e = InjectRuns"
    and "params req = Some ps" and "selector ps = Some sel" and "sel \<noteq> []"
    and "action_param ps = Some act" and "act \<noteq> []"
    and "modifyDom_func sel act (value_param ps) (attributeName ps)
           (case all_param ps of None \<Rightarrow> False | Some b \<Rightarrow> b) (page e) = (Inr r, ws)"
  shows "modifyDomInTab e req s =
     (Inr (case r of
             ModifyFailed msg \<Rightarrow>
               fail_response req (if msg = [] then ''DOM modification failed'' else msg)
           | Modified n msg \<Rightarrow> ok_response req (Some (ModifyData n msg))),
      s1\<lparr>calls := calls s1 @ [ScriptingExecuteScript (tab_id_of t)],
         dom_writes := dom_writes s1 @ ws\<rparr>)"
  using assms
  by (simp add: modifyDomInTab_def executeScript_def Let_def falsy_def or_empty_def
        split: modify_result.splits)

lemma getActiveTab_writes: "getActiveTab e s = (r, s1) \<Longrightarrow> dom_writes s1 = dom_writes s"
  by (auto simp add: getActiveTab_def Let_def split: list.splits if_splits)

text \<open>
  Claim C8 as it stands fails for a request whose action lacks its argument: the
  selector \<open>p\<close> matches three elements, the action \<open>removeAttribute\<close> comes without an
  attribute name, and the request fails without touching an element.
\<close>

theorem modifyDom_missing_argument_counterexample:
  "query (page (example_env ''https://example.com/'')) ''p'' = Inr [1, 2, 3] \<and>
   fst (dispatch_action (example_env ''https://example.com/'')
          (modify_request ''removeAttribute'' None None False) boot) =
     Inr \<lparr>resp_requestId = ''r1'', success = False, data = None,
          error = Some ''attributeName required for removeAttribute action''\<rparr> \<and>
   dom_writes (snd (dispatch_action (example_env ''https://example.com/'')
                      (modify_request ''removeAttribute'' None None False) boot)) = []"
  by (simp add: example_env_def example_page_def modify_request_def no_params_def
        dispatch_action_def modifyDomInTab_def getActiveTab_def executeScript_def
        modifyDom_func_def mutation_for_def restricted_url_def startsWith_def or_empty_def
        falsy_def fail_response_def boot_def tab_id_of_def Let_def)

text \<open>
  Claim C8, amended. Take a \<open>modifyDom\<close> request that reaches the page: the active tab
  resolves, the injection runs, selector and action are given, and the selector matches
  the elements \<open>found\<close>. When nothing matches, the request fails with an error that names
  the selector, and nothing is modified. When something matches, the action is one of
  the ten known actions with its required argument (\<open>mutation_for\<close> yields the mutation
  \<open>m\<close>) and the DOM operation does not throw on the elements concerned, then without
  \<open>all\<close> exactly the first match is modified and the response reports \<open>modifiedCount\<close> 1,
  and with \<open>all\<close> every match is modified, in document order, and the response reports
  their number.
\<close>

theorem modifyDom_counts:
  assumes tab: "getActiveTab e s = (Inr t, s1)" and runs: "inject e = InjectRuns"
    and ps: "params req = Some ps" and sel: "selector ps = Some sel" "sel \<noteq> []"
    and act: "action_param ps = Some act" "act \<noteq> []"
    and found: "query (page e) sel = Inr found"
  shows
   "(found = [] \<longrightarrow>
       fst (modifyDomInTab e req s) =
         Inr (fail_response req (''No elements found matching: '' @ sel)) \<and>
       dom_writes (snd (modifyDomInTab e req s)) = dom_writes s) \<and>
    (found \<noteq> [] \<and> mutation_for act (value_param ps) (attributeName ps) = Inr m \<and>
     dom_throws (page e) (hd found) m = None \<and> all_param ps \<noteq> Some True \<longrightarrow>
       fst (modifyDomInTab e req s) =
         Inr (ok_response req
                (Some (ModifyData 1 (''Modified 1 element(s) using '' @ act)))) \<and>
       dom_writes (snd (modifyDomInTab e req s)) = dom_writes s @ [(hd found, m)]) \<and>
    (found \<noteq> [] \<and> mutation_for act (value_param ps) (attributeName ps) = Inr m \<and>
     (\<forall>el \<in> set found. dom_throws (page e) el m = None) \<and> all_param ps = Some True \<longrightarrow>
       fst (modifyDomInTab e req s) =
         Inr (ok_response req
                (Some (ModifyData (length found)
                         (''Modified '' @ string_of_nat (length found) @
                          '' element(s) using '' @ act)))) \<and>
       dom_writes (snd (modifyDomInTab e req s)) =
         dom_writes s @ map (\<lambda>el. (el, m)) found)"
proof (intro conjI impI)
  note w = getActiveTab_writes [OF tab]
  note run = modifyDomInTab_runs [OF tab runs ps sel act]
  {
    assume "found = []"
    then have f: "modifyDom_func sel act (value_param ps) (attributeName ps)
           (case all_param ps of None \<Rightarrow> False | Some b \<Rightarrow> b) (page e) =
           (Inr (ModifyFailed (''No elements found matching: '' @ sel)), [])"
      using found by (simp add: modifyDom_func_none)
    show "fst (modifyDomInTab e req s) =
         Inr (fail_response req (''No elements found matching: '' @ sel))"
      using run [OF f] by simp
    show "dom_writes (snd (modifyDomInTab e req s)) = dom_writes s"
      using run [OF f] w by simp
  }
  {
    assume h: "found \<noteq> [] \<and> mutation_for act (value_param ps) (attributeName ps) = Inr m \<and>
     dom_throws (page e) (hd found) m = None \<and> all_param ps \<noteq> Some True"
    then have allf: "(case all_param ps of None \<Rightarrow> False | Some b \<Rightarrow> b) = False"
      by (cases "all_param ps") auto
    have tk: "take 1 found = [hd found]" using h by (cases found) auto
    have f: "modifyDom_func sel act (value_param ps) (attributeName ps)
           (case all_param ps of None \<Rightarrow> False | Some b \<Rightarrow> b) (page e) =
           (Inr (Modified 1 (''Modified '' @ string_of_nat 1 @ '' element(s) using '' @ act)),
            [(hd found, m)])"
      using modifyDom_func_some [of "page e" sel found False "[hd found]" act "value_param ps"
              "attributeName ps" m] found h tk allf
      by simp
    have one: "string_of_nat 1 = ''1''" by (simp add: string_of_nat.simps digit_char_def)
    show "fst (modifyDomInTab e req s) =
         Inr (ok_response req
                (Some (ModifyData 1 (''Modified 1 element(s) using '' @ act))))"
      using run [OF f] one by simp
    show "dom_writes (snd (modifyDomInTab e req s)) = dom_writes s @ [(hd found, m)]"
      using run [OF f] w by simp
  }
  {
    assume h: "found \<noteq> [] \<and> mutation_for act (value_param ps) (attributeName ps) = Inr m \<and>
     (\<forall>el \<in> set found. dom_throws (page e) el m = None) \<and> all_param ps = Some True"
    have f: "modifyDom_func sel act (value_param ps) (attributeName ps)
           (case all_param ps of None \<Rightarrow> False | Some b \<Rightarrow> b) (page e) =
           (Inr (Modified (length found)
                   (''Modified '' @ string_of_nat (length found) @
                    '' element(s) using '' @ act)),
            map (\<lambda>el. (el, m)) found)"
      using modifyDom_func_some [of "page e" sel found True found act "value_param ps"
              "attributeName ps" m] found h
      by simp
    show "fst (modifyDomInTab e req s) =
         Inr (ok_response req
                (Some (ModifyData (length found)
                         (''Modified '' @ string_of_nat (length found) @
                          '' element(s) using '' @ act))))"
      using run [OF f] by simp
    show "dom_writes (snd (modifyDomInTab e req s)) =
         dom_writes s @ map (\<lambda>el. (el, m)) found"
      using run [OF f] w by simp
  }
qed

text \<open>The action \<open>addClass\<close> on the three matches of \<open>p\<close>, with and without \<open>all\<close>.\<close>

theorem modifyDom_counts_witness:
  "getActiveTab (example_env ''https://example.com/'') boot =
     (Inr \<lparr>tab_id = Some 7, tab_url = Some ''https://example.com/'',
           tab_title = Some ''Example''\<rparr>, boot\<lparr>calls := [TabsQuery]\<rparr>) \<and>
   query (page (example_env ''https://example.com/'')) ''p'' = Inr [1, 2, 3] \<and>
   mutation_for ''addClass'' (Some ''seen'') None = Inr (ClassListAdd ''seen'') \<and>
   fst (modifyDomInTab (example_env ''https://example.com/'')
          (modify_request ''addClass'' (Some ''seen'') None True) boot) =
     Inr \<lparr>resp_requestId = ''r1'', success = True,
          data = Some (ModifyData 3 ''Modified 3 element(s) using addClass''),
          error = None\<rparr> \<and>
   dom_writes (snd (modifyDomInTab (example_env ''https://example.com/'')
                      (modify_request ''addClass'' (Some ''seen'') None True) boot)) =
     [(1, ClassListAdd ''seen''), (2, ClassListAdd ''seen''), (3, ClassListAdd ''seen'')] \<and>
   fst (modifyDomInTab (example_env ''https://example.com/'')
          (modify_request ''addClass'' (Some ''seen'') None False) boot) =
     Inr \<lparr>resp_requestId = ''r1'', success = True,
          data = Some (ModifyData 1 ''Modified 1 element(s) using addClass''),
          error = None\<rparr> \<and>
   dom_writes (snd (modifyDomInTab (example_env ''https://example.com/'')
                      (modify_request ''addClass'' (Some ''seen'') None False) boot)) =
     [(1, ClassListAdd ''seen'')]"
proof -
  let ?e = "example_env ''https://example.com/''"
  let ?t = "\<lparr>tab_id = Some 7, tab_url = Some ''https://example.com/'',
             tab_title = Some ''Example''\<rparr>"
  have tab: "getActiveTab ?e boot = (Inr ?t, boot\<lparr>calls := [TabsQuery]\<rparr>)"
    by (simp add: example_env_def getActiveTab_def restricted_url_def startsWith_def
          or_empty_def boot_def Let_def)
  have runs: "inject ?e = InjectRuns" by (simp add: example_env_def)
  have found: "query (page ?e) ''p'' = Inr [1, 2, 3]"
    by (simp add: example_env_def example_page_def)
  have mut: "mutation_for ''addClass'' (Some ''seen'') None = Inr (ClassListAdd ''seen'')"
    by (simp add: mutation_for_def falsy_def or_empty_def)
  have nothrow: "dom_throws (page ?e) el m = None" for el m
    by (simp add: example_env_def example_page_def)
  have three: "string_of_nat (Suc (Suc (Suc 0))) = ''3''"
    by (simp add: string_of_nat.simps digit_char_def)
  have w: "dom_writes boot = []" by (simp add: boot_def)
  note all = modifyDom_counts [of ?e boot ?t _ "modify_request ''addClass'' (Some ''seen'') None True"
      _ "''p''" "''addClass''" "[1, 2, 3]" "ClassListAdd ''seen''", OF tab runs]
  note one = modifyDom_counts [of ?e boot ?t _ "modify_request ''addClass'' (Some ''seen'') None False"
      _ "''p''" "''addClass''" "[1, 2, 3]" "ClassListAdd ''seen''", OF tab runs]
  show ?thesis
    using tab found mut all one nothrow three w
    by (simp add: modify_request_def no_params_def ok_response_def)
qed

section \<open>Sessions and rings\<close>

lemma same_logs_invariant: "same_logs s s1 \<Longrightarrow> log_invariant s \<Longrightarrow> log_invariant s1"
  by (simp add: same_logs_def log_invariant_def)

lemma same_logs_trans: "same_logs s s1 \<Longrightarrow> same_logs s1 s2 \<Longrightarrow> same_logs s s2"
  by (simp add: same_logs_def)

lemma getActiveTab_logs: "getActiveTab e s = (r, s1) \<Longrightarrow> same_logs s s1"
  by (auto simp add: getActiveTab_def same_logs_def Let_def split: list.splits if_splits)

lemma executeScript_logs: "executeScript e t f s = (r, s1) \<Longrightarrow> same_logs s s1"
  by (auto simp add: executeScript_def same_logs_def Let_def
        split: inject_outcome.splits prod.splits sum.splits if_splits)

lemma attachDebuggerToTab_invariant:
  "attachDebuggerToTab e t s = (r, s1) \<Longrightarrow> log_invariant s \<Longrightarrow> log_invariant s1"
  by (auto simp add: attachDebuggerToTab_def log_invariant_def Let_def
        split: option.splits if_splits)

lemma clear_invariant:
  "log_invariant s \<Longrightarrow> log_invariant (s\<lparr>consoleLogs := (consoleLogs s)(t \<mapsto> [])\<rparr>)"
  by (auto simp add: log_invariant_def)

lemma getConsoleLogs_invariant:
  "getConsoleLogs e req s = (r, s1) \<Longrightarrow> log_invariant s \<Longrightarrow> log_invariant s1"
  by (auto simp add: getConsoleLogs_def Let_def
        split: prod.splits sum.splits option.splits if_splits
        dest!: getActiveTab_logs attachDebuggerToTab_invariant
        dest: same_logs_invariant intro: clear_invariant)

lemma other_handlers_logs:
  "getActiveTabDom e req s = (r, s1) \<Longrightarrow> same_logs s s1"
  "getActiveTabSelection e req s = (r, s1) \<Longrightarrow> same_logs s s1"
  "getActiveTabUrl e req s = (r, s1) \<Longrightarrow> same_logs s s1"
  "captureActiveTabScreenshot e req s = (r, s1) \<Longrightarrow> same_logs s s1"
  "executeScriptInTab e req s = (r, s1) \<Longrightarrow> same_logs s s1"
  "modifyDomInTab e req s = (r, s1) \<Longrightarrow> same_logs s s1"
  by (auto simp add: getActiveTabDom_def getActiveTabSelection_def getActiveTabUrl_def
        captureActiveTabScreenshot_def executeScriptInTab_def modifyDomInTab_def Let_def
        split: prod.splits sum.splits option.splits if_splits dom_result.splits
               modify_result.splits
        dest!: getActiveTab_logs executeScript_logs intro: same_logs_trans
        simp: same_logs_def)

lemma dispatch_action_invariant:
  "dispatch_action e req s = (r, s1) \<Longrightarrow> log_invariant s \<Longrightarrow> log_invariant s1"
  by (auto simp add: dispatch_action_def split: if_splits
        dest: other_handlers_logs getConsoleLogs_invariant same_logs_invariant)

lemma handleBrowserContextRequest_invariant:
  "log_invariant s \<Longrightarrow> log_invariant (handleBrowserContextRequest e req s)"
proof (cases "dispatch_action e req s")
  case (Pair r s1)
  assume "log_invariant s"
  then have "log_invariant s1" using Pair dispatch_action_invariant by blast
  then show ?thesis using Pair
    by (simp add: handleBrowserContextRequest_def sendToBackend_def log_invariant_def
          split: sum.splits)
qed

lemma connectToBackend_logs: "same_logs s (connectToBackend c s)"
  by (simp add: connectToBackend_def same_logs_def Let_def scheduleReconnect_def
        broadcastToExtension_def)

lemma push_entry_length: "length (push_entry r en) \<le> MAX_LOGS_PER_TAB"
  unfolding push_entry_def Let_def by (cases "length (r @ [en]) > MAX_LOGS_PER_TAB") auto

lemma debugger_onEvent_invariant:
  "log_invariant s \<Longrightarrow> log_invariant (debugger_onEvent src dev now s)"
  by (auto simp add: debugger_onEvent_def log_invariant_def push_entry_length
        split: option.splits if_splits)

lemma step_invariant: "log_invariant s \<Longrightarrow> log_invariant (step s ev)"
proof (cases ev)
  case (WsMessage i payload e)
  assume "log_invariant s"
  then show ?thesis using WsMessage handleBrowserContextRequest_invariant
    by (auto simp add: step_def socket_onmessage_def handleBackendMessage_def
          broadcastToExtension_def log_invariant_def split: option.splits ws_message.splits)
next
  case (DebuggerEvent src dev now)
  assume "log_invariant s"
  then show ?thesis using DebuggerEvent by (simp add: step_def debugger_onEvent_invariant)
next
  case (ReconnectTimer c)
  assume "log_invariant s"
  then show ?thesis using ReconnectTimer
      connectToBackend_logs [of "s\<lparr>reconnect_timers := reconnect_timers s - 1\<rparr>" c]
    by (auto simp add: step_def same_logs_def log_invariant_def)
next
  case (KeepAliveTick c)
  assume "log_invariant s"
  then show ?thesis using KeepAliveTick connectToBackend_logs [of s c]
    by (auto simp add: step_def same_logs_def log_invariant_def)
next
  case (RuntimeMessage m c)
  assume "log_invariant s"
  then show ?thesis using RuntimeMessage
      connectToBackend_logs [of "s\<lparr>reconnectAttempts := 0\<rparr>" c]
    by (auto simp add: step_def runtime_onMessage_def sendToBackend_def same_logs_def
          log_invariant_def split: runtime_message.splits)
qed (auto simp add: step_def log_invariant_def socket_onopen_def socket_onclose_def
       socket_onerror_def scheduleReconnect_def broadcastToExtension_def debugger_onDetach_def
       tabs_onRemoved_def split: list.splits option.splits if_splits)

lemma run_invariant: "log_invariant s \<Longrightarrow> log_invariant (run s evs)"
  by (induction evs arbitrary: s) (simp_all add: step_invariant)

lemma startup_invariant: "log_invariant (startup c)"
  using connectToBackend_logs [of boot c]
  by (simp add: startup_def same_logs_def log_invariant_def boot_def)

text \<open>
  Claim C9 as it stands fails after a detachment. The socket opens, a \<open>getConsoleLogs\<close>
  request attaches the debugger to tab 7, and the debugger is then detached from outside:
  the tab leaves the set of sessions and its ring stays.
\<close>

theorem ring_without_session_counterexample:
  "attachedTabs
     (run (startup False)
        [WsOpen 0,
         WsMessage 0 (Some (BrowserRequest (logs_request None False)))
           (example_env ''https://example.com/''),
         DebuggerDetached (Some 7)]) = {} \<and>
   dom (consoleLogs
     (run (startup False)
        [WsOpen 0,
         WsMessage 0 (Some (BrowserRequest (logs_request None False)))
           (example_env ''https://example.com/''),
         DebuggerDetached (Some 7)])) = {7}"
  by (simp add: startup_def boot_def connectToBackend_def socket_open_def step_def
        socket_onopen_def broadcastToExtension_def socket_onmessage_def
        handleBackendMessage_def handleBrowserContextRequest_def dispatch_action_def
        getConsoleLogs_def getActiveTab_def attachDebuggerToTab_def example_env_def
        logs_request_def no_params_def restricted_url_def startsWith_def or_empty_def
        falsy_def tab_id_of_def ok_response_def sendToBackend_def debugger_onDetach_def
        Let_def)

text \<open>
  Claim C9, amended. In every state the service worker can reach, every tab with an
  active debug session owns a log ring. A detachment reported by the browser removes the
  tab from the sessions and leaves every ring as it is, so that a ring may exist
  without a session; closing the tab removes both.
\<close>

theorem sessions_have_rings:
  "attachedTabs (run (startup c) evs) \<subseteq> dom (consoleLogs (run (startup c) evs)) \<and>
   consoleLogs (debugger_onDetach src s) = consoleLogs s \<and>
   attachedTabs (debugger_onDetach (Some t) s) =
     (if t = 0 then attachedTabs s else attachedTabs s - {t}) \<and>
   t \<notin> attachedTabs (tabs_onRemoved t s) \<and>
   consoleLogs (tabs_onRemoved t s) t = None"
proof -
  have "log_invariant (run (startup c) evs)"
    using startup_invariant by (rule run_invariant)
  then show ?thesis
    by (simp add: log_invariant_def debugger_onDetach_def tabs_onRemoved_def
          split: option.splits)
qed

text \<open>
  The state after the first \<open>getConsoleLogs\<close> request for tab 7, and a detachment and a
  tab close in a state where tab 7 has one record.
\<close>

theorem sessions_have_rings_witness:
  "attachedTabs
     (run (startup False)
        [WsOpen 0,
         WsMessage 0 (Some (BrowserRequest (logs_request None False)))
           (example_env ''https://example.com/'')]) = {7} \<and>
   consoleLogs
     (run (startup False)
        [WsOpen 0,
         WsMessage 0 (Some (BrowserRequest (logs_request None False)))
           (example_env ''https://example.com/'')]) 7 = Some [] \<and>
   consoleLogs (debugger_onDetach (Some 7) (logging_state [example_entry ''log''])) 7 =
     Some [example_entry ''log''] \<and>
   attachedTabs (debugger_onDetach (Some 7) (logging_state [example_entry ''log''])) = {} \<and>
   consoleLogs (tabs_onRemoved 7 (logging_state [example_entry ''log''])) 7 = None"
  using sessions_have_rings [of False
      "[WsOpen 0,
        WsMessage 0 (Some (BrowserRequest (logs_request None False)))
          (example_env ''https://example.com/'')]"
      "Some 7" "logging_state [example_entry ''log'']" 7]
  by (simp add: startup_def boot_def connectToBackend_def socket_open_def step_def
        socket_onopen_def broadcastToExtension_def socket_onmessage_def
        handleBackendMessage_def handleBrowserContextRequest_def dispatch_action_def
        getConsoleLogs_def getActiveTab_def attachDebuggerToTab_def example_env_def
        logs_request_def no_params_def restricted_url_def startsWith_def or_empty_def
        falsy_def tab_id_of_def ok_response_def sendToBackend_def debugger_onDetach_def
        tabs_onRemoved_def logging_state_def Let_def)

section \<open>The ring keeps the most recent records\<close>

lemma push_entry_drop:
  "push_entry r en = drop (length (r @ [en]) - MAX_LOGS_PER_TAB) (r @ [en])"
  by (simp add: push_entry_def Let_def)

lemma foldl_push_entry:
  "length r \<le> MAX_LOGS_PER_TAB \<Longrightarrow>
   foldl push_entry r es = drop (length (r @ es) - MAX_LOGS_PER_TAB) (r @ es)"
proof (induction es rule: rev_induct)
  case Nil
  then show ?case by simp
next
  case (snoc en es)
  define xs where "xs = r @ es"
  define k where "k = length xs - MAX_LOGS_PER_TAB"
  have k: "k \<le> length xs" by (simp add: k_def)
  have ar: "Suc (length xs - k) - MAX_LOGS_PER_TAB + k = Suc (length xs) - MAX_LOGS_PER_TAB"
    unfolding k_def by arith
  have "foldl push_entry r (es @ [en]) = push_entry (drop k xs) en"
    using snoc by (simp add: xs_def k_def)
  also have "\<dots> = drop (length (drop k xs @ [en]) - MAX_LOGS_PER_TAB) (drop k xs @ [en])"
    by (rule push_entry_drop)
  also have "drop k xs @ [en] = drop k (xs @ [en])"
    using k by simp
  also have "drop (length (drop k (xs @ [en])) - MAX_LOGS_PER_TAB) (drop k (xs @ [en])) =
             drop (length (xs @ [en]) - MAX_LOGS_PER_TAB) (xs @ [en])"
    using ar k by (simp add: Suc_diff_le)
  finally show ?case by (simp add: xs_def)
qed

lemma run_debugger_events:
  "t \<noteq> 0 \<Longrightarrow> t \<in> attachedTabs s \<Longrightarrow> consoleLogs s t = Some r \<Longrightarrow>
   consoleLogs (run s (map (\<lambda>(ev, now). DebuggerEvent (Some t) ev now) evs)) t =
     Some (foldl push_entry r (List.map_filter (\<lambda>(ev, now). to_entry ev now) evs))"
proof (induction evs arbitrary: s r)
  case Nil
  then show ?case by simp
next
  case (Cons a evs)
  obtain ev now where a: "a = (ev, now)" by (cases a)
  let ?s1 = "debugger_onEvent (Some t) ev now s"
  have att: "t \<in> attachedTabs ?s1"
    using Cons.prems by (simp add: debugger_onEvent_def split: option.splits)
  show ?case
  proof (cases "to_entry ev now")
    case None
    then have "consoleLogs ?s1 t = Some r"
      using Cons.prems by (simp add: debugger_onEvent_def)
    from Cons.IH [OF Cons.prems(1) att this] show ?thesis
      using a None by (simp add: step_def)
  next
    case (Some en)
    then have "consoleLogs ?s1 t = Some (push_entry r en)"
      using Cons.prems by (simp add: debugger_onEvent_def)
    from Cons.IH [OF Cons.prems(1) att this] show ?thesis
      using a Some by (simp add: step_def)
  qed
qed

text \<open>
  Claim C7. Let tab \<open>t\<close> have a session and a ring \<open>r\<close> of at most 500 records, and let
  any sequence of debugger events arrive for it. Afterwards the ring holds the last 500
  records of \<open>r\<close> followed by the records built from the events, in their order of
  arrival (all of them when there are fewer than 500), and so at most 500 records. In
  every state the service worker can reach, no ring is longer than 500.
\<close>

theorem ring_keeps_most_recent:
  assumes "t \<noteq> 0" and "t \<in> attachedTabs s" and "consoleLogs s t = Some r"
    and "length r \<le> 500"
  shows
   "consoleLogs (run s (map (\<lambda>(ev, now). DebuggerEvent (Some t) ev now) evs)) t =
      Some (drop (length (r @ List.map_filter (\<lambda>(ev, now). to_entry ev now) evs) - 500)
              (r @ List.map_filter (\<lambda>(ev, now). to_entry ev now) evs)) \<and>
    length (drop (length (r @ List.map_filter (\<lambda>(ev, now). to_entry ev now) evs) - 500)
              (r @ List.map_filter (\<lambda>(ev, now). to_entry ev now) evs)) \<le> 500 \<and>
    (consoleLogs (run (startup c) evs0) t0 = Some l \<longrightarrow> length l \<le> 500)"
proof -
  have "log_invariant (run (startup c) evs0)"
    using startup_invariant by (rule run_invariant)
  then have inv: "consoleLogs (run (startup c) evs0) t0 = Some l \<longrightarrow> length l \<le> 500"
    by (simp add: log_invariant_def MAX_LOGS_PER_TAB_def)
  have "consoleLogs (run s (map (\<lambda>(ev, now). DebuggerEvent (Some t) ev now) evs)) t =
      Some (drop (length (r @ List.map_filter (\<lambda>(ev, now). to_entry ev now) evs) - 500)
              (r @ List.map_filter (\<lambda>(ev, now). to_entry ev now) evs))"
    using run_debugger_events [OF assms(1,2,3), of evs] foldl_push_entry [of r] assms(4)
    by (simp add: MAX_LOGS_PER_TAB_def)
  then show ?thesis using inv by simp
qed

text \<open>A full ring of 500 records receives one more: the oldest is dropped.\<close>

theorem ring_keeps_most_recent_witness:
  "7 \<in> attachedTabs (logging_state (replicate 500 (example_entry ''log''))) \<and>
   consoleLogs (logging_state (replicate 500 (example_entry ''log''))) 7 =
     Some (replicate 500 (example_entry ''log'')) \<and>
   consoleLogs
     (run (logging_state (replicate 500 (example_entry ''log'')))
        [DebuggerEvent (Some 7) (LogEntryAdded ''error'' ''message'' None None None) 0]) 7 =
     Some (replicate 499 (example_entry ''log'') @ [example_entry ''error''])"
proof -
  let ?s = "logging_state (replicate 500 (example_entry ''log''))"
  have a: "(7::nat) \<noteq> 0" by simp
  have b: "7 \<in> attachedTabs ?s" by (simp add: logging_state_def)
  have c: "consoleLogs ?s 7 = Some (replicate 500 (example_entry ''log''))"
    by (simp add: logging_state_def)
  have d: "length (replicate 500 (example_entry ''log'')) \<le> 500" by simp
  have e: "to_entry (LogEntryAdded ''error'' ''message'' None None None) 0 =
             Some (example_entry ''error'')"
    by (simp add: to_entry_def example_entry_def format_stack_def)
  show ?thesis
    using b c e
      ring_keeps_most_recent [OF a b c d,
        of "[(LogEntryAdded ''error'' ''message'' None None None, 0)]"]
    by simp
qed

section \<open>Clearing the ring\<close>









section \<open>Timeout of a round trip\<close>

lemma settled_call_is_final:
  "promise c \<noteq> Pending \<Longrightarrow> timeout_timer c \<noteq> Armed \<Longrightarrow> cs_run c evs = c"
proof (induction evs)
  case Nil
  then show ?case by simp
next
  case (Cons ev evs)
  then have "cs_step c ev = c"
    by (cases ev) (simp_all add: cs_step_def settle_def)
  then show ?case using Cons by simp
qed

lemma cs_run_pendingRequests: "pendingRequests (cs_run c evs) = pendingRequests c"
proof (induction evs arbitrary: c)
  case Nil
  then show ?case by simp
next
  case (Cons ev evs)
  have "pendingRequests (cs_step c ev) = pendingRequests c"
    by (cases ev) (simp_all add: cs_step_def)
  then show ?case using Cons by simp
qed

text \<open>
  Claim C2 as it stands speaks of a pending entry that the timeout removes. The module
  keeps no such entry: \<open>_pendingRequests\<close> is never written. While the request \<open>q1\<close> is in
  flight (the promise pending, the timer armed) the map has no entry for \<open>q1\<close>, and the
  timeout leaves the map as it finds it: nothing is removed.
\<close>

theorem no_pending_entry_counterexample:
  "promise (sendToContentScript 7 \<lparr>cm_type = ''content:getDom'', cm_requestId = ''q1''\<rparr>) =
     Pending \<and>
   timeout_timer (sendToContentScript 7 \<lparr>cm_type = ''content:getDom'', cm_requestId = ''q1''\<rparr>) =
     Armed \<and>
   ''q1'' \<notin>
     pendingRequests (sendToContentScript 7 \<lparr>cm_type = ''content:getDom'', cm_requestId = ''q1''\<rparr>) \<and>
   pendingRequests
     (cs_step (sendToContentScript 7 \<lparr>cm_type = ''content:getDom'', cm_requestId = ''q1''\<rparr>)
        TimeoutFires) =
   pendingRequests (sendToContentScript 7 \<lparr>cm_type = ''content:getDom'', cm_requestId = ''q1''\<rparr>)"
  by (simp add: sendToContentScript_def cs_step_def)

text \<open>
  Claim C2, amended. A round trip starts with the message sent to the tab, the promise
  pending and a timer of 10000 ms armed. When the timer fires before the response
  callback has run, the promise is rejected with the timeout error, so the caller
  receives a timeout failure, and whatever callbacks run afterwards for this round trip,
  a late response among them, change nothing. When the response callback runs first, the
  timer is cleared and the promise settles with the response, or with the error the
  browser reported, and the timer cannot reject it afterwards. The module keeps no table
  of pending requests: \<open>_pendingRequests\<close> stays empty throughout.
\<close>

theorem timeout_then_late_response:
  "sent_to_tab (sendToContentScript tabId m) = (tabId, m) \<and>
   promise (sendToContentScript tabId m) = Pending \<and>
   timeout_timer (sendToContentScript tabId m) = Armed \<and>
   timeout_delay (sendToContentScript tabId m) = 10000 \<and>
   promise (cs_step (sendToContentScript tabId m) TimeoutFires) =
     Rejected (Error ''Content script response timeout'') \<and>
   timeout_timer (cs_step (sendToContentScript tabId m) TimeoutFires) = Fired \<and>
   cs_run (cs_step (sendToContentScript tabId m) TimeoutFires) evs =
     cs_step (sendToContentScript tabId m) TimeoutFires \<and>
   promise (cs_step (sendToContentScript tabId m) (ResponseCallback lastError resp)) =
     (case lastError of Some msg \<Rightarrow> Rejected (Error msg) | None \<Rightarrow> Resolved resp) \<and>
   timeout_timer (cs_step (sendToContentScript tabId m) (ResponseCallback lastError resp)) =
     Cleared \<and>
   cs_run (cs_step (sendToContentScript tabId m) (ResponseCallback lastError resp)) evs =
     cs_step (sendToContentScript tabId m) (ResponseCallback lastError resp) \<and>
   pendingRequests (cs_run (sendToContentScript tabId m) evs) = {}"
proof -
  have a: "cs_run (cs_step (sendToContentScript tabId m) TimeoutFires) evs =
             cs_step (sendToContentScript tabId m) TimeoutFires"
    by (rule settled_call_is_final) (simp_all add: cs_step_def sendToContentScript_def settle_def)
  have b: "cs_run (cs_step (sendToContentScript tabId m) (ResponseCallback lastError resp)) evs =
             cs_step (sendToContentScript tabId m) (ResponseCallback lastError resp)"
    by (rule settled_call_is_final)
       (simp_all add: cs_step_def sendToContentScript_def settle_def split: option.splits)
  have c: "pendingRequests (cs_run (sendToContentScript tabId m) evs) = {}"
    by (simp add: cs_run_pendingRequests sendToContentScript_def)
  show ?thesis
    using a b c by (simp add: cs_step_def sendToContentScript_def settle_def)
qed

text \<open>A response that arrives after the timeout, for a request with the identifier \<open>q1\<close>.\<close>

theorem timeout_then_late_response_witness:
  "promise
     (cs_run (cs_step (sendToContentScript 7 \<lparr>cm_type = ''content:getDom'', cm_requestId = ''q1''\<rparr>)
                TimeoutFires)
        [ResponseCallback None
           (Some \<lparr>cr_requestId = ''q1'', cr_success = True, cr_error = None\<rparr>)]) =
   Rejected (Error ''Content script response timeout'')"
  using timeout_then_late_response [of 7 "\<lparr>cm_type = ''content:getDom'', cm_requestId = ''q1''\<rparr>"
      "[ResponseCallback None
          (Some \<lparr>cr_requestId = ''q1'', cr_success = True, cr_error = None\<rparr>)]"]
  by (simp add: cs_step_def sendToContentScript_def settle_def)

end
